theory Spec2Isabelle
  imports Main "HOL-Library.Sublist"
begin

section \<open>JavaScript strings\<close>

text \<open>
  A JavaScript string is a sequence of UTF-16 code units. A code unit is modelled as a
  natural number (below 65536 in every JavaScript string; no function below depends on
  that bound). \<open>lit\<close> turns an ASCII literal into its code units.
\<close>

type_synonym code_unit = nat
type_synonym jsstring = "code_unit list"

definition lit :: "string \<Rightarrow> jsstring" where
  "lit s = map of_char s"

text \<open>
  \<open>WhiteSpace\<close> and \<open>LineTerminator\<close> of ECMAScript: what \<open>String.prototype.trim\<close>
  strips and what \<open>\s\<close> matches in a regular expression.
\<close>

definition is_white_space :: "code_unit \<Rightarrow> bool" where
  "is_white_space c \<longleftrightarrow>
     c = 9 \<or> c = 10 \<or> c = 11 \<or> c = 12 \<or> c = 13 \<or> c = 32 \<or> c = 160 \<or> c = 5760 \<or>
     (8192 \<le> c \<and> c \<le> 8202) \<or> c = 8232 \<or> c = 8233 \<or> c = 8239 \<or> c = 8287 \<or>
     c = 12288 \<or> c = 65279"

definition trimStart :: "jsstring \<Rightarrow> jsstring" where
  "trimStart s = dropWhile is_white_space s"

definition trimEnd :: "jsstring \<Rightarrow> jsstring" where
  "trimEnd s = rev (dropWhile is_white_space (rev s))"

definition trim :: "jsstring \<Rightarrow> jsstring" where
  "trim s = trimEnd (trimStart s)"

text \<open>
  \<open>s.split(sep)\<close> for a separator of one code unit: every separator ends a segment,
  empty segments are kept, and the result is never empty (\<open>"".split(",")\<close> is \<open>[""]\<close>).
\<close>

fun split_on :: "code_unit \<Rightarrow> jsstring \<Rightarrow> jsstring list" where
  "split_on sep [] = [[]]"
| "split_on sep (c # cs) =
     (if c = sep then [] # split_on sep cs
      else (case split_on sep cs of
              [] \<Rightarrow> [[c]]
            | seg # segs \<Rightarrow> (c # seg) # segs))"

text \<open>\<open>xs.join(sep)\<close> for a separator of one code unit.\<close>

fun join_with :: "code_unit \<Rightarrow> jsstring list \<Rightarrow> jsstring" where
  "join_with sep [] = []"
| "join_with sep [x] = x"
| "join_with sep (x # y # ys) = x @ sep # join_with sep (y # ys)"

definition comma :: code_unit where "comma = 44"
definition LF :: code_unit where "LF = 10"
definition SP :: code_unit where "SP = 32"

section \<open>Exceptions\<close>

text \<open>
  A call either returns a value (\<open>Inr\<close>) or throws (\<open>Inl\<close>). \<open>TypeError\<close> is what the
  \<open>URL\<close> constructor throws on an input it cannot parse; \<open>Error\<close> carries the message
  of a \<open>throw new Error(...)\<close>.
\<close>

datatype exn = TypeError | Error jsstring

section \<open>The endpoint list validator (App.tsx, validateValue and defaultInstanceValid)\<close>

text \<open>
  \<^verbatim>\<open>function validateValue<T>(value: T, validator: (value: T) => boolean) {
    try { return validator(value); } catch { return false; }
  }\<close>
\<close>

definition validateValue :: "'a \<Rightarrow> ('a \<Rightarrow> exn + bool) \<Rightarrow> exn + bool" where
  "validateValue val validator =
     (case validator val of
        Inr r \<Rightarrow> Inr r
      | Inl _ \<Rightarrow> Inr False)"

text \<open>
  The fields of a \<open>URL\<close> object that the model keeps. The constructor itself belongs to
  the platform, not to this repository: the validator takes it as the parameter \<open>URL\<close>,
  a function from the input string to the object built or the exception thrown.
\<close>

record URL =
  protocol :: jsstring
  hostname :: jsstring
  pathname :: jsstring

text \<open>
  The loop of the validator callback:
  \<^verbatim>\<open>for (const instance of instances) {
    const url = new URL(instance)
    if (url.pathname.length > 1) { throw new Error("no pathname allowed") }
  }
  return true\<close>
\<close>

fun for_instances :: "(jsstring \<Rightarrow> exn + URL) \<Rightarrow> jsstring list \<Rightarrow> exn + bool" where
  "for_instances URL [] = Inr True"
| "for_instances URL (inst # instances) =
     (case URL inst of
        Inl e \<Rightarrow> Inl e
      | Inr url \<Rightarrow>
          if length (pathname url) > 1 then Inl (Error (lit ''no pathname allowed''))
          else for_instances URL instances)"

definition defaultInstanceValidator :: "(jsstring \<Rightarrow> exn + URL) \<Rightarrow> jsstring \<Rightarrow> exn + bool" where
  "defaultInstanceValidator URL val = for_instances URL (split_on comma val)"

definition defaultInstanceValid :: "(jsstring \<Rightarrow> exn + URL) \<Rightarrow> jsstring \<Rightarrow> exn + bool" where
  "defaultInstanceValid URL defaultInstance =
     validateValue defaultInstance (defaultInstanceValidator URL)"

section \<open>A model of the platform's URL constructor\<close>

text \<open>
  \<open>new URL(input)\<close> runs the basic URL parser of the WHATWG URL Standard without a base
  URL and throws a \<open>TypeError\<close> when the parser fails. The model follows the parser for
  the URLs with one of the schemes \<open>http\<close>, \<open>https\<close>, \<open>ws\<close>, \<open>wss\<close> and \<open>ftp\<close> whose host is
  an ASCII domain, for the URLs of a scheme that is not special whose path is opaque
  (what follows the colon does not start with a slash), and for every input that fails
  before a scheme is found. What it leaves out is reported as \<open>None\<close>: the \<open>file\<close>
  scheme, the other schemes when a slash follows the colon, an opaque path with a
  space, and the hosts that need a percent-decoder, the IDNA mapping, or the IPv4 and
  IPv6 parsers.
\<close>

definition is_c0_control_or_space :: "code_unit \<Rightarrow> bool" where
  "is_c0_control_or_space c \<longleftrightarrow> c \<le> 32"

definition is_ascii_tab_or_newline :: "code_unit \<Rightarrow> bool" where
  "is_ascii_tab_or_newline c \<longleftrightarrow> c = 9 \<or> c = 10 \<or> c = 13"

definition is_ascii_upper_alpha :: "code_unit \<Rightarrow> bool" where
  "is_ascii_upper_alpha c \<longleftrightarrow> 65 \<le> c \<and> c \<le> 90"

definition is_ascii_alpha :: "code_unit \<Rightarrow> bool" where
  "is_ascii_alpha c \<longleftrightarrow> is_ascii_upper_alpha c \<or> (97 \<le> c \<and> c \<le> 122)"

definition is_ascii_digit :: "code_unit \<Rightarrow> bool" where
  "is_ascii_digit c \<longleftrightarrow> 48 \<le> c \<and> c \<le> 57"

definition is_ascii_alphanumeric :: "code_unit \<Rightarrow> bool" where
  "is_ascii_alphanumeric c \<longleftrightarrow> is_ascii_digit c \<or> is_ascii_alpha c"

definition ascii_lowercase :: "code_unit \<Rightarrow> code_unit" where
  "ascii_lowercase c = (if is_ascii_upper_alpha c then c + 32 else c)"

text \<open>Scheme state: ASCII alphanumerics, \<open>+\<close>, \<open>-\<close> and \<open>.\<close> extend the scheme.\<close>

definition is_scheme_unit :: "code_unit \<Rightarrow> bool" where
  "is_scheme_unit c \<longleftrightarrow> is_ascii_alphanumeric c \<or> c = 43 \<or> c = 45 \<or> c = 46"

text \<open>The special schemes other than \<open>file\<close>.\<close>

definition special_schemes :: "jsstring list" where
  "special_schemes = [lit ''http'', lit ''https'', lit ''ws'', lit ''wss'', lit ''ftp'']"

text \<open>
  Conversion to a sequence of Unicode scalar values (a lone surrogate becomes U+FFFD),
  UTF-8, and percent-encoding of one byte.
\<close>

definition is_lead_surrogate :: "code_unit \<Rightarrow> bool" where
  "is_lead_surrogate c \<longleftrightarrow> 55296 \<le> c \<and> c \<le> 56319"

definition is_trail_surrogate :: "code_unit \<Rightarrow> bool" where
  "is_trail_surrogate c \<longleftrightarrow> 56320 \<le> c \<and> c \<le> 57343"

fun scalar_values :: "jsstring \<Rightarrow> nat list" where
  "scalar_values [] = []"
| "scalar_values [c] =
     [if is_lead_surrogate c \<or> is_trail_surrogate c then 65533 else c]"
| "scalar_values (c # d # s) =
     (if is_lead_surrogate c \<and> is_trail_surrogate d
        then (65536 + (c - 55296) * 1024 + (d - 56320)) # scalar_values s
      else if is_lead_surrogate c \<or> is_trail_surrogate c
        then 65533 # scalar_values (d # s)
      else c # scalar_values (d # s))"

definition utf8_encode :: "nat \<Rightarrow> nat list" where
  "utf8_encode cp =
     (if cp < 128 then [cp]
      else if cp < 2048 then [192 + cp div 64, 128 + cp mod 64]
      else if cp < 65536 then [224 + cp div 4096, 128 + (cp div 64) mod 64, 128 + cp mod 64]
      else [240 + (cp div 262144) mod 8, 128 + (cp div 4096) mod 64,
            128 + (cp div 64) mod 64, 128 + cp mod 64])"

definition hex_digit :: "nat \<Rightarrow> code_unit" where
  "hex_digit n = (if n < 10 then 48 + n else 55 + n)"

definition percent_encode_byte :: "nat \<Rightarrow> jsstring" where
  "percent_encode_byte b = [37, hex_digit (b div 16), hex_digit (b mod 16)]"

definition utf8_percent_encode :: "(nat \<Rightarrow> bool) \<Rightarrow> nat \<Rightarrow> jsstring" where
  "utf8_percent_encode in_set cp =
     (if in_set cp then concat (map percent_encode_byte (utf8_encode cp)) else [cp])"

text \<open>
  The path percent-encode set: C0 controls, everything above \<open>~\<close>, space, \<open>"\<close>, \<open>#\<close>, \<open><\<close>,
  \<open>>\<close>, \<open>?\<close>, \<open>^\<close>, the backquote, \<open>{\<close> and \<open>}\<close>.
\<close>

definition in_path_percent_encode_set :: "nat \<Rightarrow> bool" where
  "in_path_percent_encode_set cp \<longleftrightarrow>
     cp \<le> 32 \<or> 126 < cp \<or> cp = 34 \<or> cp = 35 \<or> cp = 60 \<or> cp = 62 \<or> cp = 63 \<or> cp = 94 \<or>
     cp = 96 \<or> cp = 123 \<or> cp = 125"

text \<open>Forbidden domain code points.\<close>

definition is_forbidden_domain_unit :: "code_unit \<Rightarrow> bool" where
  "is_forbidden_domain_unit c \<longleftrightarrow>
     c \<le> 32 \<or> c = 35 \<or> c = 37 \<or> c = 47 \<or> c = 58 \<or> c = 60 \<or> c = 62 \<or> c = 63 \<or> c = 64 \<or>
     c = 91 \<or> c = 92 \<or> c = 93 \<or> c = 94 \<or> c = 124 \<or> c = 127"

text \<open>
  Host parsing for a special scheme. \<open>None\<close>: the host has a code unit outside ASCII, a
  percent sign, a label that starts with \<open>xn--\<close>, or a last label that may be a number
  (it starts with a digit), so that the standard sends it through a decoder this model
  does not have. Otherwise the domain is the input in lower case, and a forbidden domain
  code point makes the parser fail.
\<close>

definition last_label :: "jsstring \<Rightarrow> jsstring" where
  "last_label h =
     (let parts = split_on 46 h
      in if last parts = [] \<and> 1 < length parts then last (butlast parts) else last parts)"

definition host_parser :: "jsstring \<Rightarrow> (exn + jsstring) option" where
  "host_parser h =
     (if list_ex (\<lambda>c. 128 \<le> c \<or> c = 37) h then None
      else if list_ex (\<lambda>l. map ascii_lowercase (take 4 l) = lit ''xn--'') (split_on 46 h)
        then None
      else if list_ex is_ascii_digit (take 1 (last_label h)) then None
      else if list_ex is_forbidden_domain_unit h then Some (Inl TypeError)
      else Some (Inr (map ascii_lowercase h)))"

text \<open>
  Port state: only ASCII digits up to the end of the authority, and at most 65535.
\<close>

definition port_ok :: "jsstring \<Rightarrow> bool" where
  "port_ok ds \<longleftrightarrow>
     list_all is_ascii_digit ds \<and> foldl (\<lambda>n d. 10 * n + (d - 48)) 0 ds \<le> 65535"

text \<open>
  Path state. The segments are the pieces between separators; the last one ends at the
  end of the path. A double-dot segment removes the last segment kept so far, a dot
  segment adds nothing, and either one, when it is last, leaves an empty segment.
\<close>

definition is_single_dot :: "jsstring \<Rightarrow> bool" where
  "is_single_dot buffer \<longleftrightarrow>
     map ascii_lowercase buffer = lit ''.'' \<or> map ascii_lowercase buffer = lit ''%2e''"

definition is_double_dot :: "jsstring \<Rightarrow> bool" where
  "is_double_dot buffer \<longleftrightarrow>
     map ascii_lowercase buffer = lit ''..'' \<or> map ascii_lowercase buffer = lit ''.%2e'' \<or>
     map ascii_lowercase buffer = lit ''%2e.'' \<or> map ascii_lowercase buffer = lit ''%2e%2e''"

fun path_state :: "jsstring list \<Rightarrow> jsstring list \<Rightarrow> jsstring list" where
  "path_state path [] = path"
| "path_state path (buffer # rest) =
     (if is_double_dot buffer
        then path_state (butlast path @ (if rest = [] then [[]] else [])) rest
      else if is_single_dot buffer
        then path_state (path @ (if rest = [] then [[]] else [])) rest
      else path_state (path @ [buffer]) rest)"

definition is_authority_end :: "code_unit \<Rightarrow> bool" where
  "is_authority_end c \<longleftrightarrow> c = 47 \<or> c = 63 \<or> c = 35 \<or> c = 92"

definition is_slash :: "code_unit \<Rightarrow> bool" where
  "is_slash c \<longleftrightarrow> c = 47 \<or> c = 92"

definition is_query_or_fragment_start :: "code_unit \<Rightarrow> bool" where
  "is_query_or_fragment_start c \<longleftrightarrow> c = 63 \<or> c = 35"

text \<open>
  The path of a special URL, from what follows the authority: up to the first \<open>?\<close> or
  \<open>#\<close>, without the separator that starts it, a backslash counting as a slash.
\<close>

definition special_path :: "jsstring \<Rightarrow> jsstring list" where
  "special_path remaining =
     (let p = takeWhile (\<lambda>c. \<not> is_query_or_fragment_start c) remaining;
          segments = split_on 47 (map (\<lambda>c. if c = 92 then 47 else c) (drop 1 p))
      in path_state []
           (map (\<lambda>seg. concat (map (utf8_percent_encode in_path_percent_encode_set)
                                  (scalar_values seg))) segments))"

text \<open>The \<open>pathname\<close> getter of a URL whose path is a list of segments.\<close>

definition serialize_path :: "jsstring list \<Rightarrow> jsstring" where
  "serialize_path path = concat (map (\<lambda>seg. 47 # seg) path)"

text \<open>
  Authority, host and port states for a special scheme, after the slashes and
  backslashes that follow the colon have been skipped.
\<close>

definition special_authority :: "jsstring \<Rightarrow> jsstring \<Rightarrow> (exn + URL) option" where
  "special_authority scheme s =
     (let authority = takeWhile (\<lambda>c. \<not> is_authority_end c) s;
          remaining = dropWhile (\<lambda>c. \<not> is_authority_end c) s;
          hostport = rev (takeWhile (\<lambda>c. c \<noteq> 64) (rev authority));
          h = takeWhile (\<lambda>c. c \<noteq> 58) hostport;
          p = dropWhile (\<lambda>c. c \<noteq> 58) hostport
      in if h = [] then Some (Inl TypeError)
         else if list_ex (\<lambda>c. c = 91 \<or> c = 93) hostport then None
         else (case host_parser h of
                 None \<Rightarrow> None
               | Some (Inl e) \<Rightarrow> Some (Inl e)
               | Some (Inr host) \<Rightarrow>
                   if port_ok (drop 1 p)
                   then Some (Inr \<lparr>protocol = scheme @ [58], hostname = host,
                                   pathname = serialize_path (special_path remaining)\<rparr>)
                   else Some (Inl TypeError)))"

text \<open>
  Opaque path state, for a scheme that is not special when no slash follows the colon:
  the path is one string, what follows the colon up to the first \<open>?\<close> or \<open>#\<close>, encoded
  with the C0 control percent-encode set (C0 controls and everything above \<open>~\<close>). The
  URL has no host, and the \<open>hostname\<close> getter gives the empty string.
\<close>

definition in_c0_control_percent_encode_set :: "nat \<Rightarrow> bool" where
  "in_c0_control_percent_encode_set cp \<longleftrightarrow> cp \<le> 31 \<or> 126 < cp"

definition opaque_path :: "jsstring \<Rightarrow> jsstring" where
  "opaque_path remaining =
     concat (map (utf8_percent_encode in_c0_control_percent_encode_set)
               (scalar_values (takeWhile (\<lambda>c. \<not> is_query_or_fragment_start c) remaining)))"

definition URL_parser :: "jsstring \<Rightarrow> (exn + URL) option" where
  "URL_parser input =
     (let s = filter (\<lambda>c. \<not> is_ascii_tab_or_newline c)
                (rev (dropWhile is_c0_control_or_space
                   (rev (dropWhile is_c0_control_or_space input))));
          scheme = map ascii_lowercase (takeWhile is_scheme_unit s);
          rest = dropWhile is_scheme_unit s
      in if \<not> list_ex is_ascii_alpha (take 1 s) then Some (Inl TypeError)
         else if take 1 rest \<noteq> [58] then Some (Inl TypeError)
         else if scheme \<in> set special_schemes
           then special_authority scheme (dropWhile is_slash (drop 1 rest))
         else if scheme = lit ''file'' \<or> take 1 (drop 1 rest) = [47] then None
         else if list_ex (\<lambda>c. c = 32) (opaque_path (drop 1 rest)) then None
         else Some (Inr \<lparr>protocol = scheme @ [58], hostname = [],
                         pathname = opaque_path (drop 1 rest)\<rparr>))"

text \<open>
  The constructor as the validator receives it; nothing is said about an input that
  the model leaves out.
\<close>

definition URL_std :: "jsstring \<Rightarrow> exn + URL" where
  "URL_std input = (case URL_parser input of Some r \<Rightarrow> r | None \<Rightarrow> undefined)"

section \<open>The dedent template tag\<close>

text \<open>
  The renderers build their text with the \<open>dedent\<close> package (version 1, with its default
  options), called as a template tag: \<open>raw\<close> holds the raw text between the placeholders,
  \<open>values\<close> the placeholders' values. The package is not part of this repository; the
  model follows its source up to release 1.7.1, without the last step that only runs
  under the Bun runtime. In these releases the only escape sequence that the tag decodes
  after the interpolation is \<open>\n\<close>.
  The tag first interpolates:
  \<^verbatim>\<open>next = raw[i].replace(/\\\n[ \t]*/g, "").replace(/\\`/g, "`")
           .replace(/\\\$/g, "$").replace(/\\\{/g, "{");
  result += next; if (i < values.length) result += values[i];\<close>
\<close>

function replace_escaped_newline :: "jsstring \<Rightarrow> jsstring" where
  "replace_escaped_newline (a # b # s) =
     (if a = 92 \<and> b = 10
        then replace_escaped_newline (dropWhile (\<lambda>c. c = 32 \<or> c = 9) s)
      else a # replace_escaped_newline (b # s))"
| "replace_escaped_newline [a] = [a]"
| "replace_escaped_newline [] = []"
  by pat_completeness auto
termination
  by (relation "measure length") (auto simp: less_Suc_eq_le intro!: le_SucI length_dropWhile_le)

text \<open>\<open>s.replace(/\\x/g, y)\<close>: every backslash followed by \<open>x\<close> becomes \<open>y\<close>.\<close>

fun replace_escaped :: "code_unit \<Rightarrow> code_unit \<Rightarrow> jsstring \<Rightarrow> jsstring" where
  "replace_escaped x y (a # b # s) =
     (if a = 92 \<and> b = x then y # replace_escaped x y s
      else a # replace_escaped x y (b # s))"
| "replace_escaped x y [a] = [a]"
| "replace_escaped x y [] = []"

definition escape_special :: "jsstring \<Rightarrow> jsstring" where
  "escape_special next =
     replace_escaped 123 123 (replace_escaped 36 36 (replace_escaped 96 96
       (replace_escaped_newline next)))"

fun interpolate :: "jsstring list \<Rightarrow> jsstring list \<Rightarrow> jsstring" where
  "interpolate [] vals = []"
| "interpolate (next # raw) [] = escape_special next @ interpolate raw []"
| "interpolate (next # raw) (v # vals) = escape_special next @ v @ interpolate raw vals"

text \<open>
  Then it strips the indentation:
  \<^verbatim>\<open>const lines = result.split("\n");
  let mindent = null;
  for (const l of lines) {
    const m = l.match(/^(\s+)\S+/);
    if (m) {
      const indent = m[1].length;
      if (!mindent) mindent = indent; else mindent = Math.min(mindent, indent);
    }
  }
  if (mindent !== null) {
    result = lines.map((l) => (l[0] === " " || l[0] === "\t" ? l.slice(mindent) : l))
                  .join("\n");
  }\<close>
  The match succeeds when the line starts with white space and has something else after
  it; \<open>indent\<close> is the length of that white space, never 0, so that \<open>!mindent\<close> holds
  only for \<open>null\<close>.
\<close>

definition line_indent :: "jsstring \<Rightarrow> nat option" where
  "line_indent l =
     (if takeWhile is_white_space l = [] then None
      else if dropWhile is_white_space l = [] then None
      else Some (length (takeWhile is_white_space l)))"

fun mindent_loop :: "nat option \<Rightarrow> jsstring list \<Rightarrow> nat option" where
  "mindent_loop mindent [] = mindent"
| "mindent_loop mindent (l # ls) =
     (case line_indent l of
        None \<Rightarrow> mindent_loop mindent ls
      | Some indent \<Rightarrow>
          (case mindent of
             None \<Rightarrow> mindent_loop (Some indent) ls
           | Some m \<Rightarrow> mindent_loop (Some (min m indent)) ls))"

definition slice_line :: "nat \<Rightarrow> jsstring \<Rightarrow> jsstring" where
  "slice_line m l = (if take 1 l = [32] \<or> take 1 l = [9] then drop m l else l)"

definition strip_indentation :: "jsstring \<Rightarrow> jsstring" where
  "strip_indentation result =
     (case mindent_loop None (split_on LF result) of
        None \<Rightarrow> result
      | Some m \<Rightarrow> join_with LF (map (slice_line m) (split_on LF result)))"

text \<open>
  And last: \<^verbatim>\<open>result = result.trim(); result = result.replace(/\\n/g, "\n");\<close>
\<close>

definition dedent :: "jsstring list \<Rightarrow> jsstring list \<Rightarrow> jsstring" where
  "dedent raw vals =
     replace_escaped 110 10 (trim (strip_indentation (interpolate raw vals)))"

section \<open>The settings and the four renderers (App.tsx)\<close>

datatype InstanceSelectionMode = DEFAULT_FIRST | DEFAULT_RANDOM

text \<open>The string value of an enum member.\<close>

fun mode_value :: "InstanceSelectionMode \<Rightarrow> jsstring" where
  "mode_value DEFAULT_FIRST = lit ''default_first''"
| "mode_value DEFAULT_RANDOM = lit ''default_random''"

datatype ConfigType = DOCKER_COMMAND | DOCKERFILE | DOCKER_COMPOSE | KUBERNETES

text \<open>The state of the store, and the argument of every renderer.\<close>

record Store =
  configType :: ConfigType
  lockToDefaultInstance :: bool
  name :: jsstring
  defaultInstance :: jsstring
  instanceSelectionMode :: InstanceSelectionMode

record config =
  REACT_APP_NAME :: jsstring
  REACT_APP_DEFAULT_INSTANCE :: jsstring
  REACT_APP_LOCK_TO_DEFAULT_INSTANCE :: bool
  REACT_APP_INSTANCE_SELECTION_MODE :: InstanceSelectionMode
  hasMultipleInstances :: bool

text \<open>
  \<^verbatim>\<open>REACT_APP_DEFAULT_INSTANCE.split(",").map(i => i.trim()).join(",")\<close>
\<close>

definition instances :: "jsstring \<Rightarrow> jsstring" where
  "instances s = join_with comma (map trim (split_on comma s))"

text \<open>
  \<^verbatim>\<open>REACT_APP_LOCK_TO_DEFAULT_INSTANCE ? 1 : 0\<close>, a number, and the decimal string that a
  template makes of a number.
\<close>

definition lockVal :: "bool \<Rightarrow> nat" where
  "lockVal b = (if b then 1 else 0)"

fun number_string :: "nat \<Rightarrow> jsstring" where
  "number_string n =
     (if n < 10 then [48 + n] else number_string (n div 10) @ [48 + n mod 10])"

declare number_string.simps [simp del]

text \<open>
  \<open>getDockerCommand\<close>. The raw text of the template, cut at its four placeholders; a
  backslash is the code unit 92. The fourth placeholder is an ordinary template literal,
  in which a backslash before a space gives the space, and \<open>\n\<close> a line feed:
  \<^verbatim>\<open>hasMultipleInstances
    ? `-e REACT_APP_INSTANCE_SELECTION_MODE="${REACT_APP_INSTANCE_SELECTION_MODE}" \ \n      `
    : ""\<close>
\<close>

definition getDockerCommand_raw0 :: jsstring where
  \<open>getDockerCommand_raw0 = join_with LF
     [[],
      lit ''    # pull the latest Blorp image'',
      lit ''    docker pull christianjuth/blorp:latest'',
      [],
      lit ''    # run it on port 8080 (host '' @
        [8594] @ lit '' container), passing any runtime env'' @ [8209] @ lit ''vars you need'',
      lit ''    docker run -d '' @ [92] @ lit '' '',
      lit ''      --name blorp '' @ [92] @ lit '' '',
      lit ''      -p 8080:80 '' @ [92] @ lit '' '',
      lit ''      -e REACT_APP_NAME="'']\<close>

definition getDockerCommand_raw1 :: jsstring where
  \<open>getDockerCommand_raw1 = join_with LF
     [lit ''" '' @ [92] @ lit '' '',
      lit ''      -e REACT_APP_DEFAULT_INSTANCE="'']\<close>

definition getDockerCommand_raw2 :: jsstring where
  \<open>getDockerCommand_raw2 = join_with LF
     [lit ''" '' @ [92] @ lit '' '',
      lit ''      -e REACT_APP_LOCK_TO_DEFAULT_INSTANCE="'']\<close>

definition getDockerCommand_raw3 :: jsstring where
  \<open>getDockerCommand_raw3 = join_with LF
     [lit ''" '' @ [92] @ lit '' '',
      lit ''      '']\<close>

definition getDockerCommand_raw4 :: jsstring where
  \<open>getDockerCommand_raw4 = join_with LF
     [lit ''christianjuth/blorp:latest'',
      lit ''  '']\<close>

definition getDockerCommand_mode :: "config \<Rightarrow> jsstring" where
  \<open>getDockerCommand_mode cfg =
     (if hasMultipleInstances cfg
      then lit ''-e REACT_APP_INSTANCE_SELECTION_MODE="'' @
           mode_value (REACT_APP_INSTANCE_SELECTION_MODE cfg) @
           lit ''"  '' @ [LF] @ lit ''      ''
      else [])\<close>

definition getDockerCommand :: "config \<Rightarrow> jsstring" where
  "getDockerCommand cfg =
     dedent
       [getDockerCommand_raw0, getDockerCommand_raw1, getDockerCommand_raw2,
        getDockerCommand_raw3, getDockerCommand_raw4]
       [trim (REACT_APP_NAME cfg), instances (REACT_APP_DEFAULT_INSTANCE cfg),
        number_string (lockVal (REACT_APP_LOCK_TO_DEFAULT_INSTANCE cfg)),
        getDockerCommand_mode cfg]"

text \<open>\<open>getDockerfile\<close>; the result of the tag is trimmed once more.\<close>

definition getDockerfile_raw0 :: jsstring where
  \<open>getDockerfile_raw0 = join_with LF
     [[],
      lit ''    FROM christianjuth/blorp:latest'',
      [],
      lit ''    ENV REACT_APP_NAME="'']\<close>

definition getDockerfile_raw1 :: jsstring where
  \<open>getDockerfile_raw1 = join_with LF
     [lit ''"'',
      lit ''    ENV REACT_APP_DEFAULT_INSTANCE="'']\<close>

definition getDockerfile_raw2 :: jsstring where
  \<open>getDockerfile_raw2 = join_with LF
     [lit ''"'',
      lit ''    ENV REACT_APP_LOCK_TO_DEFAULT_INSTANCE="'']\<close>

definition getDockerfile_raw3 :: jsstring where
  \<open>getDockerfile_raw3 = join_with LF
     [lit ''"'',
      lit ''    '']\<close>

definition getDockerfile_raw4 :: jsstring where
  \<open>getDockerfile_raw4 = join_with LF
     [[],
      [],
      lit ''    EXPOSE 80'',
      lit ''    # Build:  docker build -t blorp-custom .'',
      lit ''    # Run:    docker run -d --name blorp -p 8080:80 blorp-custom'',
      lit ''  '']\<close>

definition getDockerfile_mode :: "config \<Rightarrow> jsstring" where
  \<open>getDockerfile_mode cfg =
     (if hasMultipleInstances cfg
      then lit ''ENV REACT_APP_INSTANCE_SELECTION_MODE="'' @
           mode_value (REACT_APP_INSTANCE_SELECTION_MODE cfg) @ lit ''"''
      else [])\<close>

definition getDockerfile :: "config \<Rightarrow> jsstring" where
  "getDockerfile cfg =
     trim (dedent
       [getDockerfile_raw0, getDockerfile_raw1, getDockerfile_raw2, getDockerfile_raw3,
        getDockerfile_raw4]
       [trim (REACT_APP_NAME cfg), instances (REACT_APP_DEFAULT_INSTANCE cfg),
        number_string (lockVal (REACT_APP_LOCK_TO_DEFAULT_INSTANCE cfg)),
        getDockerfile_mode cfg])"

text \<open>
  \<open>getCompose\<close>. \<open>maybeMode\<close> is an ordinary template literal that starts with a line
  feed and six spaces:
  \<^verbatim>\<open>hasMultipleInstances
    ? `\n      REACT_APP_INSTANCE_SELECTION_MODE: "${REACT_APP_INSTANCE_SELECTION_MODE}"`
    : ""\<close>
\<close>

definition getCompose_raw0 :: jsstring where
  \<open>getCompose_raw0 = join_with LF
     [[],
      lit ''    version: "3.8"'',
      [],
      lit ''    services:'',
      lit ''      blorp:'',
      lit ''        image: christianjuth/blorp:latest'',
      lit ''        container_name: blorp'',
      lit ''        ports:'',
      lit ''          - "8080:80"'',
      lit ''        environment:'',
      lit ''          REACT_APP_NAME: "'']\<close>

definition getCompose_raw1 :: jsstring where
  \<open>getCompose_raw1 = join_with LF
     [lit ''"'',
      lit ''          REACT_APP_DEFAULT_INSTANCE: "'']\<close>

definition getCompose_raw2 :: jsstring where
  \<open>getCompose_raw2 = join_with LF
     [lit ''"'',
      lit ''          REACT_APP_LOCK_TO_DEFAULT_INSTANCE: "'']\<close>

definition getCompose_raw3 :: jsstring where
  \<open>getCompose_raw3 = join_with LF
     [lit ''"'']\<close>

definition getCompose_raw4 :: jsstring where
  \<open>getCompose_raw4 = join_with LF
     [[],
      lit ''  '']\<close>

definition getCompose_maybeMode :: "config \<Rightarrow> jsstring" where
  \<open>getCompose_maybeMode cfg =
     (if hasMultipleInstances cfg
      then [LF] @ lit ''      REACT_APP_INSTANCE_SELECTION_MODE: "'' @
           mode_value (REACT_APP_INSTANCE_SELECTION_MODE cfg) @ lit ''"''
      else [])\<close>

definition getCompose :: "config \<Rightarrow> jsstring" where
  "getCompose cfg =
     trim (dedent
       [getCompose_raw0, getCompose_raw1, getCompose_raw2, getCompose_raw3, getCompose_raw4]
       [trim (REACT_APP_NAME cfg), instances (REACT_APP_DEFAULT_INSTANCE cfg),
        number_string (lockVal (REACT_APP_LOCK_TO_DEFAULT_INSTANCE cfg)),
        getCompose_maybeMode cfg])"

text \<open>\<open>getKube\<close>. Here \<open>maybeMode\<close> is itself the result of the tag.\<close>

definition getKube_maybeMode_raw0 :: jsstring where
  \<open>getKube_maybeMode_raw0 = join_with LF
     [[],
      lit ''        - name: REACT_APP_INSTANCE_SELECTION_MODE'',
      lit ''          value: "'']\<close>

definition getKube_maybeMode_raw1 :: jsstring where
  \<open>getKube_maybeMode_raw1 = join_with LF
     [lit ''"'']\<close>

definition getKube_maybeMode :: "config \<Rightarrow> jsstring" where
  "getKube_maybeMode cfg =
     (if hasMultipleInstances cfg
      then dedent [getKube_maybeMode_raw0, getKube_maybeMode_raw1]
             [mode_value (REACT_APP_INSTANCE_SELECTION_MODE cfg)]
      else [])"

definition getKube_raw0 :: jsstring where
  \<open>getKube_raw0 = join_with LF
     [[],
      lit ''    apiVersion: apps/v1'',
      lit ''    kind: Deployment'',
      lit ''    metadata:'',
      lit ''      name: blorp'',
      lit ''      labels:'',
      lit ''        app: blorp'',
      lit ''    spec:'',
      lit ''      replicas: 1'',
      lit ''      selector:'',
      lit ''        matchLabels:'',
      lit ''          app: blorp'',
      lit ''      template:'',
      lit ''        metadata:'',
      lit ''          labels:'',
      lit ''            app: blorp'',
      lit ''        spec:'',
      lit ''          containers:'',
      lit ''            - name: blorp'',
      lit ''              image: christianjuth/blorp:latest'',
      lit ''              ports:'',
      lit ''                - containerPort: 80'',
      lit ''              env:'',
      lit ''                - name: REACT_APP_NAME'',
      lit ''                  value: "'']\<close>

definition getKube_raw1 :: jsstring where
  \<open>getKube_raw1 = join_with LF
     [lit ''"'',
      lit ''                - name: REACT_APP_DEFAULT_INSTANCE'',
      lit ''                  value: "'']\<close>

definition getKube_raw2 :: jsstring where
  \<open>getKube_raw2 = join_with LF
     [lit ''"'',
      lit ''                - name: REACT_APP_LOCK_TO_DEFAULT_INSTANCE'',
      lit ''                  value: "'']\<close>

definition getKube_raw3 :: jsstring where
  \<open>getKube_raw3 = join_with LF
     [lit ''"'',
      lit ''                '']\<close>

definition getKube_raw4 :: jsstring where
  \<open>getKube_raw4 = join_with LF
     [[],
      lit ''    ---'',
      lit ''    apiVersion: v1'',
      lit ''    kind: Service'',
      lit ''    metadata:'',
      lit ''      name: blorp'',
      lit ''      labels:'',
      lit ''        app: blorp'',
      lit ''    spec:'',
      lit ''      selector:'',
      lit ''        app: blorp'',
      lit ''      type: NodePort'',
      lit ''      ports:'',
      lit ''        - name: http'',
      lit ''          port: 80'',
      lit ''          targetPort: 80'',
      lit ''          nodePort: 30080'',
      lit ''  '']\<close>

definition getKube :: "config \<Rightarrow> jsstring" where
  "getKube cfg =
     trim (dedent
       [getKube_raw0, getKube_raw1, getKube_raw2, getKube_raw3, getKube_raw4]
       [trim (REACT_APP_NAME cfg), instances (REACT_APP_DEFAULT_INSTANCE cfg),
        number_string (lockVal (REACT_APP_LOCK_TO_DEFAULT_INSTANCE cfg)),
        getKube_maybeMode cfg])"

text \<open>
  What \<open>App\<close> computes from the store: the flag, the argument of the renderers, and the
  text shown (\<open>code\<close>).
\<close>

definition App_hasMultipleInstances :: "Store \<Rightarrow> bool" where
  "App_hasMultipleInstances st \<longleftrightarrow> 1 < length (split_on comma (defaultInstance st))"

definition App_config :: "Store \<Rightarrow> config" where
  "App_config st =
     \<lparr>REACT_APP_NAME = name st,
      REACT_APP_DEFAULT_INSTANCE = defaultInstance st,
      REACT_APP_LOCK_TO_DEFAULT_INSTANCE = lockToDefaultInstance st,
      REACT_APP_INSTANCE_SELECTION_MODE = instanceSelectionMode st,
      hasMultipleInstances = App_hasMultipleInstances st\<rparr>"

fun App_code :: "Store \<Rightarrow> jsstring" where
  "App_code st =
     (case configType st of
        DOCKER_COMMAND \<Rightarrow> getDockerCommand (App_config st)
      | DOCKERFILE \<Rightarrow> getDockerfile (App_config st)
      | DOCKER_COMPOSE \<Rightarrow> getCompose (App_config st)
      | KUBERNETES \<Rightarrow> getKube (App_config st))"

section \<open>The share link (App.tsx, demoParams)\<close>

text \<open>
  A \<open>URLSearchParams\<close> object is a list of name-value pairs. \<open>set\<close> gives the first pair
  with the name the new value and removes the other pairs with that name, or appends
  the pair when there is none.
\<close>

type_synonym URLSearchParams = "(jsstring \<times> jsstring) list"

fun params_set :: "jsstring \<Rightarrow> jsstring \<Rightarrow> URLSearchParams \<Rightarrow> URLSearchParams" where
  "params_set k v [] = [(k, v)]"
| "params_set k v ((k', v') # ps) =
     (if k' = k then (k, v) # filter (\<lambda>p. fst p \<noteq> k) ps
      else (k', v') # params_set k v ps)"

text \<open>
  \<open>toString\<close> is the \<open>application/x-www-form-urlencoded\<close> serializer: names and values
  are encoded as UTF-8, a space becomes \<open>+\<close>, and every byte other than an ASCII
  alphanumeric, \<open>*\<close>, \<open>-\<close>, \<open>.\<close> and \<open>_\<close> becomes \<open>%XX\<close>.
\<close>

definition is_urlencoded_safe :: "nat \<Rightarrow> bool" where
  "is_urlencoded_safe b \<longleftrightarrow> is_ascii_alphanumeric b \<or> b = 42 \<or> b = 45 \<or> b = 46 \<or> b = 95"

definition urlencode_byte :: "nat \<Rightarrow> jsstring" where
  "urlencode_byte b = (if is_urlencoded_safe b then [b] else percent_encode_byte b)"

definition urlencode_scalar :: "nat \<Rightarrow> jsstring" where
  "urlencode_scalar cp =
     (if cp = 32 then [43] else concat (map urlencode_byte (utf8_encode cp)))"

definition urlencode :: "jsstring \<Rightarrow> jsstring" where
  "urlencode s = concat (map urlencode_scalar (scalar_values s))"

definition params_toString :: "URLSearchParams \<Rightarrow> jsstring" where
  "params_toString ps =
     join_with 38 (map (\<lambda>p. urlencode (fst p) @ 61 # urlencode (snd p)) ps)"

text \<open>
  \<^verbatim>\<open>const params = new URLSearchParams()
  params.set("REACT_APP_NAME", name)
  params.set("REACT_APP_DEFAULT_INSTANCE", defaultInstance)
  params.set("REACT_APP_LOCK_TO_DEFAULT_INSTANCE", lockToDefaultInstance ? "1" : "0")
  params.set("REACT_APP_INSTANCE_SELECTION_MODE", instanceSelectionMode)
  return params.toString();\<close>
\<close>

definition demoParams :: "Store \<Rightarrow> jsstring" where
  "demoParams st =
     params_toString
       (params_set (lit ''REACT_APP_INSTANCE_SELECTION_MODE'')
            (mode_value (instanceSelectionMode st))
          (params_set (lit ''REACT_APP_LOCK_TO_DEFAULT_INSTANCE'')
               (if lockToDefaultInstance st then lit ''1'' else lit ''0'')
             (params_set (lit ''REACT_APP_DEFAULT_INSTANCE'') (defaultInstance st)
                (params_set (lit ''REACT_APP_NAME'') (name st) []))))"

text \<open>
  The store as \<open>create\<close> initialises it, and the settings of the second scenario of the
  specification.
\<close>

definition initial_store :: Store where
  "initial_store =
     \<lparr>configType = DOCKER_COMMAND, lockToDefaultInstance = False, name = lit ''Blorp'',
      defaultInstance = lit ''https://lemmy.world'', instanceSelectionMode = DEFAULT_FIRST\<rparr>"

definition acme_store :: Store where
  "acme_store =
     \<lparr>configType = KUBERNETES, lockToDefaultInstance = True, name = lit ''Acme'',
      defaultInstance = lit ''https://a.com,https://b.com'',
      instanceSelectionMode = DEFAULT_RANDOM\<rparr>"

text \<open>
  Settings with white space around the name and after a comma, and the same settings
  with that white space removed.
\<close>

definition spaced_store :: Store where
  "spaced_store =
     \<lparr>configType = DOCKER_COMMAND, lockToDefaultInstance = False, name = lit '' Blorp '',
      defaultInstance = lit ''https://a.com, https://b.com'',
      instanceSelectionMode = DEFAULT_FIRST\<rparr>"

definition trimmed_store :: Store where
  "trimmed_store =
     \<lparr>configType = DOCKER_COMMAND, lockToDefaultInstance = False, name = lit ''Blorp'',
      defaultInstance = lit ''https://a.com,https://b.com'',
      instanceSelectionMode = DEFAULT_FIRST\<rparr>"

text \<open>
  The second scenario with one endpoint only.
\<close>

definition acme_single_store :: Store where
  "acme_single_store =
     \<lparr>configType = KUBERNETES, lockToDefaultInstance = True, name = lit ''Acme'',
      defaultInstance = lit ''https://a.com'', instanceSelectionMode = DEFAULT_RANDOM\<rparr>"

text \<open>
  The lines of the template of \<open>getKube\<close> with the values of the second scenario put in,
  as the tag sees them, and the lines of the manifest it makes of them.
\<close>

definition acme_template_lines :: "jsstring list" where
  \<open>acme_template_lines =
     [[],
      lit ''    apiVersion: apps/v1'',
      lit ''    kind: Deployment'',
      lit ''    metadata:'',
      lit ''      name: blorp'',
      lit ''      labels:'',
      lit ''        app: blorp'',
      lit ''    spec:'',
      lit ''      replicas: 1'',
      lit ''      selector:'',
      lit ''        matchLabels:'',
      lit ''          app: blorp'',
      lit ''      template:'',
      lit ''        metadata:'',
      lit ''          labels:'',
      lit ''            app: blorp'',
      lit ''        spec:'',
      lit ''          containers:'',
      lit ''            - name: blorp'',
      lit ''              image: christianjuth/blorp:latest'',
      lit ''              ports:'',
      lit ''                - containerPort: 80'',
      lit ''              env:'',
      lit ''                - name: REACT_APP_NAME'',
      lit ''                  value: "Acme"'',
      lit ''                - name: REACT_APP_DEFAULT_INSTANCE'',
      lit ''                  value: "https://a.com,https://b.com"'',
      lit ''                - name: REACT_APP_LOCK_TO_DEFAULT_INSTANCE'',
      lit ''                  value: "1"'',
      lit ''                - name: REACT_APP_INSTANCE_SELECTION_MODE'',
      lit ''  value: "default_random"'',
      lit ''    ---'',
      lit ''    apiVersion: v1'',
      lit ''    kind: Service'',
      lit ''    metadata:'',
      lit ''      name: blorp'',
      lit ''      labels:'',
      lit ''        app: blorp'',
      lit ''    spec:'',
      lit ''      selector:'',
      lit ''        app: blorp'',
      lit ''      type: NodePort'',
      lit ''      ports:'',
      lit ''        - name: http'',
      lit ''          port: 80'',
      lit ''          targetPort: 80'',
      lit ''          nodePort: 30080'',
      lit ''  '']\<close>

definition acme_manifest_lines :: "jsstring list" where
  \<open>acme_manifest_lines =
     [lit ''apiVersion: apps/v1'',
      lit ''  kind: Deployment'',
      lit ''  metadata:'',
      lit ''    name: blorp'',
      lit ''    labels:'',
      lit ''      app: blorp'',
      lit ''  spec:'',
      lit ''    replicas: 1'',
      lit ''    selector:'',
      lit ''      matchLabels:'',
      lit ''        app: blorp'',
      lit ''    template:'',
      lit ''      metadata:'',
      lit ''        labels:'',
      lit ''          app: blorp'',
      lit ''      spec:'',
      lit ''        containers:'',
      lit ''          - name: blorp'',
      lit ''            image: christianjuth/blorp:latest'',
      lit ''            ports:'',
      lit ''              - containerPort: 80'',
      lit ''            env:'',
      lit ''              - name: REACT_APP_NAME'',
      lit ''                value: "Acme"'',
      lit ''              - name: REACT_APP_DEFAULT_INSTANCE'',
      lit ''                value: "https://a.com,https://b.com"'',
      lit ''              - name: REACT_APP_LOCK_TO_DEFAULT_INSTANCE'',
      lit ''                value: "1"'',
      lit ''              - name: REACT_APP_INSTANCE_SELECTION_MODE'',
      lit ''value: "default_random"'',
      lit ''  ---'',
      lit ''  apiVersion: v1'',
      lit ''  kind: Service'',
      lit ''  metadata:'',
      lit ''    name: blorp'',
      lit ''    labels:'',
      lit ''      app: blorp'',
      lit ''  spec:'',
      lit ''    selector:'',
      lit ''      app: blorp'',
      lit ''    type: NodePort'',
      lit ''    ports:'',
      lit ''      - name: http'',
      lit ''        port: 80'',
      lit ''        targetPort: 80'',
      lit ''        nodePort: 30080'']\<close>

text \<open>The same for the scenario with one endpoint.\<close>

definition acme_single_template_lines :: "jsstring list" where
  \<open>acme_single_template_lines =
     [[],
      lit ''    apiVersion: apps/v1'',
      lit ''    kind: Deployment'',
      lit ''    metadata:'',
      lit ''      name: blorp'',
      lit ''      labels:'',
      lit ''        app: blorp'',
      lit ''    spec:'',
      lit ''      replicas: 1'',
      lit ''      selector:'',
      lit ''        matchLabels:'',
      lit ''          app: blorp'',
      lit ''      template:'',
      lit ''        metadata:'',
      lit ''          labels:'',
      lit ''            app: blorp'',
      lit ''        spec:'',
      lit ''          containers:'',
      lit ''            - name: blorp'',
      lit ''              image: christianjuth/blorp:latest'',
      lit ''              ports:'',
      lit ''                - containerPort: 80'',
      lit ''              env:'',
      lit ''                - name: REACT_APP_NAME'',
      lit ''                  value: "Acme"'',
      lit ''                - name: REACT_APP_DEFAULT_INSTANCE'',
      lit ''                  value: "https://a.com"'',
      lit ''                - name: REACT_APP_LOCK_TO_DEFAULT_INSTANCE'',
      lit ''                  value: "1"'',
      lit ''                '',
      lit ''    ---'',
      lit ''    apiVersion: v1'',
      lit ''    kind: Service'',
      lit ''    metadata:'',
      lit ''      name: blorp'',
      lit ''      labels:'',
      lit ''        app: blorp'',
      lit ''    spec:'',
      lit ''      selector:'',
      lit ''        app: blorp'',
      lit ''      type: NodePort'',
      lit ''      ports:'',
      lit ''        - name: http'',
      lit ''          port: 80'',
      lit ''          targetPort: 80'',
      lit ''          nodePort: 30080'',
      lit ''  '']\<close>

definition acme_single_manifest_lines :: "jsstring list" where
  \<open>acme_single_manifest_lines =
     [lit ''apiVersion: apps/v1'',
      lit ''kind: Deployment'',
      lit ''metadata:'',
      lit ''  name: blorp'',
      lit ''  labels:'',
      lit ''    app: blorp'',
      lit ''spec:'',
      lit ''  replicas: 1'',
      lit ''  selector:'',
      lit ''    matchLabels:'',
      lit ''      app: blorp'',
      lit ''  template:'',
      lit ''    metadata:'',
      lit ''      labels:'',
      lit ''        app: blorp'',
      lit ''    spec:'',
      lit ''      containers:'',
      lit ''        - name: blorp'',
      lit ''          image: christianjuth/blorp:latest'',
      lit ''          ports:'',
      lit ''            - containerPort: 80'',
      lit ''          env:'',
      lit ''            - name: REACT_APP_NAME'',
      lit ''              value: "Acme"'',
      lit ''            - name: REACT_APP_DEFAULT_INSTANCE'',
      lit ''              value: "https://a.com"'',
      lit ''            - name: REACT_APP_LOCK_TO_DEFAULT_INSTANCE'',
      lit ''              value: "1"'',
      lit ''            '',
      lit ''---'',
      lit ''apiVersion: v1'',
      lit ''kind: Service'',
      lit ''metadata:'',
      lit ''  name: blorp'',
      lit ''  labels:'',
      lit ''    app: blorp'',
      lit ''spec:'',
      lit ''  selector:'',
      lit ''    app: blorp'',
      lit ''  type: NodePort'',
      lit ''  ports:'',
      lit ''    - name: http'',
      lit ''      port: 80'',
      lit ''      targetPort: 80'',
      lit ''      nodePort: 30080'']\<close>

text \<open>The name of the selection-mode variable, as every renderer writes it.\<close>

definition selection_mode_token :: jsstring where
  "selection_mode_token = lit ''REACT_APP_INSTANCE_SELECTION_MODE''"

section \<open>Counting occurrences\<close>

text \<open>
  The number of positions of a string at which a pattern starts. A text contains a
  (non-empty) pattern when the number is positive, and contains it exactly once when
  the number is 1.
\<close>

primrec occurrences :: "jsstring \<Rightarrow> jsstring \<Rightarrow> nat" where
  "occurrences P [] = 0"
| "occurrences P (c # s) = (if prefix P (c # s) then 1 else 0) + occurrences P s"

text \<open>
  The patterns whose occurrences the tag neither removes nor adds: they begin and end
  with something other than white space and have no line feed and no backslash, and
  they do not begin with \<open>n\<close>.
\<close>

definition plain_pattern :: "jsstring \<Rightarrow> bool" where
  "plain_pattern P \<longleftrightarrow>
     P \<noteq> [] \<and> \<not> is_white_space (hd P) \<and> \<not> is_white_space (last P) \<and>
     10 \<notin> set P \<and> 92 \<notin> set P \<and> hd P \<noteq> 110"

section \<open>Strings: basic facts\<close>

lemma split_on_not_Nil: "split_on sep s \<noteq> []"
  by (induction s) (auto split: list.splits)

lemma split_on_no_sep: "sep \<notin> set s \<Longrightarrow> split_on sep s = [s]"
  by (induction s) (auto split: list.splits)

section \<open>The validator\<close>

lemmas url_eval = URL_std_def URL_parser_def special_authority_def special_path_def
  opaque_path_def in_c0_control_percent_encode_set_def
  serialize_path_def host_parser_def last_label_def port_ok_def is_single_dot_def
  is_double_dot_def utf8_percent_encode_def in_path_percent_encode_set_def
  percent_encode_byte_def hex_digit_def utf8_encode_def is_lead_surrogate_def
  is_trail_surrogate_def is_forbidden_domain_unit_def is_authority_end_def is_slash_def
  is_query_or_fragment_start_def special_schemes_def is_scheme_unit_def ascii_lowercase_def
  is_ascii_alphanumeric_def is_ascii_digit_def is_ascii_alpha_def is_ascii_upper_alpha_def
  is_ascii_tab_or_newline_def is_c0_control_or_space_def lit_def comma_def Let_def

lemmas validator_eval = defaultInstanceValid_def validateValue_def defaultInstanceValidator_def

lemma for_instances_not_False: "for_instances URL segs \<noteq> Inr False"
  by (induction segs) (auto split: sum.splits)

lemma for_instances_True_iff:
  "for_instances URL segs = Inr True \<longleftrightarrow>
     list_all (\<lambda>seg. case URL seg of Inl e \<Rightarrow> False | Inr u \<Rightarrow> length (pathname u) \<le> 1) segs"
  by (induction segs) (auto split: sum.splits)

lemma validateValue_eq: "validateValue val validator = Inr (validator val = Inr True)"
  by (cases "validator val") (auto simp: validateValue_def)

lemma sum_case_ex:
  "(case r of Inl e \<Rightarrow> False | Inr u \<Rightarrow> P u) \<longleftrightarrow> (\<exists>u. r = Inr u \<and> P u)"
  by (cases r) auto

lemma defaultInstanceValid_eq:
  "defaultInstanceValid URL raw =
     Inr (list_all (\<lambda>seg. case URL seg of Inl e \<Rightarrow> False | Inr u \<Rightarrow> length (pathname u) \<le> 1)
            (split_on comma raw))"
  by (simp add: defaultInstanceValid_def validateValue_eq defaultInstanceValidator_def
      for_instances_True_iff)

text \<open>
  The validator hands each segment to the constructor as it is. The constructor strips
  spaces and C0 controls itself, but not the other white space that \<open>trim\<close> strips: a
  segment that starts with a no-break space is rejected, though its trimmed form is a
  root-only URL.
\<close>

lemma validator_does_not_trim:
  "trim (160 # lit ''https://a.com'') = lit ''https://a.com'' \<and>
   defaultInstanceValid URL_std (lit ''https://a.com'') = Inr True \<and>
   defaultInstanceValid URL_std (160 # lit ''https://a.com'') = Inr False"
  by (simp add: validator_eval url_eval trim_def trimStart_def trimEnd_def is_white_space_def)

text \<open>
  Claim C1, as amended. The validator returns true exactly when the constructor accepts
  every segment of the raw string split at the commas, the empty segments included and
  none of them trimmed, with a pathname of at most one code unit.
\<close>

theorem defaultInstanceValid_iff:
  "defaultInstanceValid URL raw = Inr True \<longleftrightarrow>
     (\<forall>seg \<in> set (split_on comma raw). \<exists>u. URL seg = Inr u \<and> length (pathname u) \<le> 1)"
  by (simp add: defaultInstanceValid_eq list_all_iff sum_case_ex)

theorem defaultInstanceValid_iff_witness:
  "list_all (\<lambda>seg. \<exists>u. URL_std seg = Inr u \<and> length (pathname u) \<le> 1)
     (split_on comma (lit ''https://a.com,https://b.com'')) \<and>
   defaultInstanceValid URL_std (lit ''https://a.com,https://b.com'') = Inr True"
proof -
  have segs: "list_all (\<lambda>seg. \<exists>u. URL_std seg = Inr u \<and> length (pathname u) \<le> 1)
     (split_on comma (lit ''https://a.com,https://b.com''))"
    by (simp add: url_eval)
  with defaultInstanceValid_iff [of URL_std "lit ''https://a.com,https://b.com''"]
  show ?thesis by (simp add: list_all_iff)
qed

text \<open>
  Claim C1 as stated fails at the empty string: its only segment is empty, so the claim
  skips it and gives true, while the code passes it to the constructor, which throws.
\<close>

theorem validate_empty_counterexample:
  "map trim (split_on comma (lit '''')) = [[]] \<and>
   defaultInstanceValid URL_std (lit '''') = Inr False"
  by (simp add: validator_eval url_eval trim_def trimStart_def trimEnd_def)

text \<open>
  Claim C4. The validator always completes normally with a boolean, and that boolean
  is false whenever the callback throws, be it the constructor's \<open>TypeError\<close> or the
  \<open>Error\<close> of the pathname check.
\<close>

theorem validator_never_throws:
  "(\<exists>b. validateValue val validator = Inr b) \<and>
   (\<forall>e. validator val = Inl e \<longrightarrow> validateValue val validator = Inr False) \<and>
   (\<exists>b. defaultInstanceValid URL raw = Inr b) \<and>
   (\<forall>e. defaultInstanceValidator URL raw = Inl e \<longrightarrow> defaultInstanceValid URL raw = Inr False)"
  by (simp add: defaultInstanceValid_def validateValue_eq)

theorem validator_never_throws_witness:
  "defaultInstanceValidator URL_std (lit ''not a url'') = Inl TypeError \<and>
   defaultInstanceValid URL_std (lit ''not a url'') = Inr False \<and>
   defaultInstanceValidator URL_std (lit ''https://b.com/x'') =
     Inl (Error (lit ''no pathname allowed'')) \<and>
   defaultInstanceValid URL_std (lit ''https://b.com/x'') = Inr False"
proof -
  have a: "defaultInstanceValidator URL_std (lit ''not a url'') = Inl TypeError"
    by (simp add: defaultInstanceValidator_def url_eval)
  have b: "defaultInstanceValidator URL_std (lit ''https://b.com/x'') =
     Inl (Error (lit ''no pathname allowed''))"
    by (simp add: defaultInstanceValidator_def url_eval)
  from a b
    validator_never_throws [of "lit ''not a url''" "defaultInstanceValidator URL_std"
      URL_std "lit ''not a url''"]
    validator_never_throws [of "lit ''https://b.com/x''" "defaultInstanceValidator URL_std"
      URL_std "lit ''https://b.com/x''"]
  show ?thesis by blast
qed

text \<open>
  Claim C5, as amended. The check on a segment is the length of the pathname, not what
  the pathname is: when the constructor accepts some segment of the raw string with a
  pathname of more than one code unit, the validator returns false.
\<close>

theorem validate_rejects_path:
  "seg \<in> set (split_on comma raw) \<Longrightarrow> URL seg = Inr u \<Longrightarrow> 1 < length (pathname u) \<Longrightarrow>
   defaultInstanceValid URL raw = Inr False"
  by (force simp: defaultInstanceValid_eq list_all_iff sum_case_ex)

theorem validate_rejects_path_witness:
  "lit ''https://b.com/x'' \<in> set (split_on comma (lit ''https://a.com,https://b.com/x'')) \<and>
   URL_std (lit ''https://b.com/x'') =
     Inr \<lparr>protocol = lit ''https:'', hostname = lit ''b.com'', pathname = lit ''/x''\<rparr> \<and>
   defaultInstanceValid URL_std (lit ''https://a.com,https://b.com/x'') = Inr False"
proof -
  have a: "lit ''https://b.com/x'' \<in> set (split_on comma (lit ''https://a.com,https://b.com/x''))"
    by (simp add: lit_def comma_def)
  have b: "URL_std (lit ''https://b.com/x'') =
     Inr \<lparr>protocol = lit ''https:'', hostname = lit ''b.com'', pathname = lit ''/x''\<rparr>"
    by (simp add: url_eval)
  have c: "1 < length (pathname \<lparr>protocol = lit ''https:'', hostname = lit ''b.com'',
     pathname = lit ''/x''\<rparr>)"
    by (simp add: lit_def)
  from a b c
    validate_rejects_path [of "lit ''https://b.com/x''" "lit ''https://a.com,https://b.com/x''"
      URL_std "\<lparr>protocol = lit ''https:'', hostname = lit ''b.com'', pathname = lit ''/x''\<rparr>"]
  show ?thesis by simp
qed

text \<open>
  Claim C5 as stated fails for a path of one code unit that is not the separator. The
  URL \<open>a:b\<close> is absolute, its path is \<open>b\<close>, and the validator returns true.
\<close>

theorem validate_short_path_counterexample:
  "URL_std (lit ''a:b'') =
     Inr \<lparr>protocol = lit ''a:'', hostname = [], pathname = lit ''b''\<rparr> \<and>
   lit ''b'' \<noteq> lit ''/'' \<and>
   defaultInstanceValid URL_std (lit ''a:b'') = Inr True"
  by (simp add: validator_eval url_eval)

text \<open>
  Claim C6. A raw string without a comma that the constructor accepts as a root-only
  URL (a pathname of at most the leading separator) is valid.
\<close>

theorem validate_single_root_url:
  "comma \<notin> set raw \<Longrightarrow> URL raw = Inr u \<Longrightarrow> length (pathname u) \<le> 1 \<Longrightarrow>
   defaultInstanceValid URL raw = Inr True"
  by (simp add: defaultInstanceValid_eq split_on_no_sep)

theorem validate_single_root_url_witness:
  "comma \<notin> set (lit ''https://lemmy.world'') \<and>
   URL_std (lit ''https://lemmy.world'') =
     Inr \<lparr>protocol = lit ''https:'', hostname = lit ''lemmy.world'', pathname = lit ''/''\<rparr> \<and>
   defaultInstanceValid URL_std (lit ''https://lemmy.world'') = Inr True"
proof -
  have a: "comma \<notin> set (lit ''https://lemmy.world'')"
    by (simp add: lit_def comma_def)
  have b: "URL_std (lit ''https://lemmy.world'') =
     Inr \<lparr>protocol = lit ''https:'', hostname = lit ''lemmy.world'', pathname = lit ''/''\<rparr>"
    by (simp add: url_eval)
  have c: "length (pathname \<lparr>protocol = lit ''https:'', hostname = lit ''lemmy.world'',
     pathname = lit ''/''\<rparr>) \<le> 1"
    by (simp add: lit_def)
  from a b c
    validate_single_root_url [of "lit ''https://lemmy.world''" URL_std
      "\<lparr>protocol = lit ''https:'', hostname = lit ''lemmy.world'', pathname = lit ''/''\<rparr>"]
  show ?thesis by simp
qed

section \<open>Occurrences of a pattern\<close>

lemma occurrences_Cons_other:
  "P \<noteq> [] \<Longrightarrow> c \<noteq> hd P \<Longrightarrow> occurrences P (c # s) = occurrences P s"
  by (cases P) auto

lemma occurrences_drop_prefix:
  "P \<noteq> [] \<Longrightarrow> hd P \<notin> set w \<Longrightarrow> occurrences P (w @ s) = occurrences P s"
proof (induction w)
  case Nil then show ?case by simp
next
  case (Cons a w)
  have "occurrences P (a # (w @ s)) = occurrences P (w @ s)"
    using Cons.prems by (intro occurrences_Cons_other) auto
  with Cons show ?case by (simp del: occurrences.simps)
qed

lemma prefix_append_sep:
  "c \<notin> set P \<Longrightarrow> prefix P (a @ c # b) \<longleftrightarrow> prefix P a"
  by (auto simp: prefix_append prefix_Cons)

lemma occurrences_sep:
  "P \<noteq> [] \<Longrightarrow> c \<notin> set P \<Longrightarrow>
   occurrences P (xs @ c # ys) = occurrences P xs + occurrences P ys"
proof (induction xs)
  case Nil
  then show ?case by (cases P) auto
next
  case (Cons x xs)
  have "prefix P ((x # xs) @ c # ys) \<longleftrightarrow> prefix P (x # xs)"
    using Cons.prems(2) by (rule prefix_append_sep)
  with Cons show ?case by simp
qed

lemma occurrences_none:
  "P \<noteq> [] \<Longrightarrow> last P \<notin> set w \<Longrightarrow> occurrences P w = 0"
proof (induction w)
  case Nil then show ?case by simp
next
  case (Cons c w)
  have "\<not> prefix P (c # w)"
  proof
    assume "prefix P (c # w)"
    then have "set P \<subseteq> set (c # w)" by (rule set_mono_prefix)
    with Cons.prems show False using last_in_set by blast
  qed
  with Cons show ?case by simp
qed

lemma prefix_append_tail:
  assumes "P \<noteq> []" "last P \<notin> set w"
  shows "prefix P (a @ w) \<longleftrightarrow> prefix P a"
proof
  assume "prefix P (a @ w)"
  then have "prefix P a \<or> (\<exists>us. P = a @ us \<and> prefix us w)"
    by (simp add: prefix_append)
  then show "prefix P a"
  proof (elim disjE exE conjE)
    fix us assume us: "P = a @ us" "prefix us w"
    show "prefix P a"
    proof (cases "us = []")
      case True with us show ?thesis by simp
    next
      case False
      with us have "last P = last us" by simp
      moreover have "last us \<in> set w"
        using us(2) False set_mono_prefix last_in_set by blast
      ultimately show ?thesis using assms by simp
    qed
  qed
qed (simp add: prefix_prefix)

lemma occurrences_drop_suffix:
  "P \<noteq> [] \<Longrightarrow> last P \<notin> set w \<Longrightarrow> occurrences P (xs @ w) = occurrences P xs"
proof (induction xs)
  case Nil then show ?case by (simp add: occurrences_none)
next
  case (Cons x xs)
  have "prefix P ((x # xs) @ w) \<longleftrightarrow> prefix P (x # xs)"
    using Cons.prems by (rule prefix_append_tail)
  with Cons show ?case by simp
qed

lemma occurrences_pos_iff: "P \<noteq> [] \<Longrightarrow> 0 < occurrences P s \<longleftrightarrow> sublist P s"
proof (induction s)
  case Nil then show ?case by simp
next
  case (Cons c s)
  then show ?case by (auto simp: sublist_Cons_right)
qed


section \<open>Splitting and joining\<close>

lemma join_with_Cons: "ls \<noteq> [] \<Longrightarrow> join_with c (x # ls) = x @ c # join_with c ls"
  by (cases ls) auto

lemma join_with_Cons_hd: "join_with c ((a # x) # ls) = a # join_with c (x # ls)"
  by (cases ls) auto

lemma join_with_split_on: "join_with c (split_on c s) = s"
proof (induction s)
  case Nil then show ?case by simp
next
  case (Cons a s)
  show ?case
  proof (cases "a = c")
    case True
    with Cons show ?thesis by (simp add: join_with_Cons split_on_not_Nil)
  next
    case False
    obtain seg segs where sp: "split_on c s = seg # segs"
      using split_on_not_Nil by (cases "split_on c s") auto
    with Cons False show ?thesis by (simp add: join_with_Cons_hd)
  qed
qed

lemma occurrences_join_with:
  "P \<noteq> [] \<Longrightarrow> c \<notin> set P \<Longrightarrow>
   occurrences P (join_with c ls) = sum_list (map (occurrences P) ls)"
proof (induction c ls rule: join_with.induct)
  case (3 sep x y ys)
  then show ?case by (simp add: occurrences_sep del: occurrences.simps)
qed simp_all

section \<open>The tag keeps the occurrences of a plain pattern\<close>

lemma mindent_loop_Some:
  "\<exists>m. mindent_loop (Some a) ls = Some m \<and> m \<le> a"
proof (induction ls arbitrary: a)
  case Nil then show ?case by simp
next
  case (Cons l ls)
  show ?case
  proof (cases "line_indent l")
    case None
    with Cons show ?thesis by simp
  next
    case (Some k)
    from Cons [of "min a k"] obtain m where "mindent_loop (Some (min a k)) ls = Some m" "m \<le> min a k"
      by blast
    with Some show ?thesis by simp
  qed
qed

lemma mindent_loop_le:
  "mindent_loop acc ls = Some m \<Longrightarrow> l \<in> set ls \<Longrightarrow> line_indent l = Some k \<Longrightarrow> m \<le> k"
proof (induction ls arbitrary: acc)
  case Nil then show ?case by simp
next
  case (Cons l0 ls)
  show ?case
  proof (cases "l = l0")
    case True
    show ?thesis
    proof (cases acc)
      case None
      with Cons.prems True have "mindent_loop (Some k) ls = Some m" by simp
      with mindent_loop_Some [of k ls] show ?thesis by simp
    next
      case (Some a)
      with Cons.prems True have "mindent_loop (Some (min a k)) ls = Some m" by simp
      with mindent_loop_Some [of "min a k" ls] show ?thesis by simp
    qed
  next
    case False
    with Cons.prems have l: "l \<in> set ls" by simp
    from Cons.prems(1) obtain acc' where "mindent_loop acc' ls = Some m"
      by (auto split: option.splits)
    from Cons.IH [OF this l Cons.prems(3)] show ?thesis .
  qed
qed

lemma slice_line_white_space:
  assumes "mindent_loop None ls = Some m" "l \<in> set ls"
  shows "\<exists>w. l = w @ slice_line m l \<and> list_all is_white_space w"
proof (cases "take 1 l = [32] \<or> take 1 l = [9]")
  case False
  then have "l = [] @ slice_line m l" by (simp add: slice_line_def)
  moreover have "list_all is_white_space []" by simp
  ultimately show ?thesis by blast
next
  case True
  then have sl: "slice_line m l = drop m l" by (simp add: slice_line_def)
  from True have hd_ws: "takeWhile is_white_space l \<noteq> []"
    by (cases l) (auto simp: is_white_space_def)
  have "list_all is_white_space (take m l)"
  proof (cases "line_indent l")
    case None
    with hd_ws have "dropWhile is_white_space l = []"
      by (simp add: line_indent_def split: if_splits)
    then have "list_all is_white_space l" by (simp add: list_all_iff)
    then show ?thesis by (auto simp: list_all_iff dest: in_set_takeD)
  next
    case (Some k)
    then have k: "k = length (takeWhile is_white_space l)"
      by (simp add: line_indent_def split: if_splits)
    from mindent_loop_le [OF assms Some] have "m \<le> k" .
    with k have "take m l = take m (takeWhile is_white_space l)"
      by (metis append_eq_conv_conj take_all takeWhile_dropWhile_id take_append min.absorb1 
          length_take take_take)
    then show ?thesis
      by (auto simp: list_all_iff dest!: in_set_takeD set_takeWhileD)
  qed
  with sl show ?thesis by (metis append_take_drop_id)
qed


lemma occurrences_slice_line:
  assumes "P \<noteq> []" "\<not> is_white_space (hd P)" "mindent_loop None ls = Some m" "l \<in> set ls"
  shows "occurrences P (slice_line m l) = occurrences P l"
proof -
  from slice_line_white_space [OF assms(3,4)] obtain w
    where w: "l = w @ slice_line m l" "list_all is_white_space w" by blast
  from w(2) assms(2) have "hd P \<notin> set w" by (auto simp: list_all_iff)
  from occurrences_drop_prefix [OF assms(1) this, of "slice_line m l"] w(1)
  show ?thesis by simp
qed

lemma occurrences_strip_indentation:
  assumes "P \<noteq> []" "\<not> is_white_space (hd P)" "LF \<notin> set P"
  shows "occurrences P (strip_indentation s) = occurrences P s"
proof (cases "mindent_loop None (split_on LF s)")
  case None
  then show ?thesis by (simp add: strip_indentation_def)
next
  case (Some m)
  have "map (\<lambda>l. occurrences P (slice_line m l)) (split_on LF s) =
      map (occurrences P) (split_on LF s)"
    by (rule map_cong) (simp_all add: occurrences_slice_line [OF assms(1,2) Some])
  then have "sum_list (map (occurrences P) (map (slice_line m) (split_on LF s))) =
      sum_list (map (occurrences P) (split_on LF s))"
    by (simp only: map_map comp_def)
  then have "occurrences P (join_with LF (map (slice_line m) (split_on LF s))) =
      occurrences P (join_with LF (split_on LF s))"
    by (simp only: occurrences_join_with [OF assms(1,3)])
  with Some show ?thesis by (simp add: strip_indentation_def join_with_split_on)
qed

lemma occurrences_trimStart:
  assumes "P \<noteq> []" "\<not> is_white_space (hd P)"
  shows "occurrences P (trimStart s) = occurrences P s"
proof -
  have "hd P \<notin> set (takeWhile is_white_space s)"
    using assms(2) by (auto dest: set_takeWhileD)
  from occurrences_drop_prefix [OF assms(1) this, of "dropWhile is_white_space s"]
  show ?thesis by (simp add: trimStart_def)
qed

lemma trimEnd_decompose:
  "s = trimEnd s @ rev (takeWhile is_white_space (rev s))"
proof -
  have "rev (dropWhile is_white_space (rev s)) @ rev (takeWhile is_white_space (rev s)) = s"
    by (metis rev_append rev_rev_ident takeWhile_dropWhile_id)
  then show ?thesis by (simp add: trimEnd_def)
qed

lemma occurrences_trimEnd:
  assumes "P \<noteq> []" "\<not> is_white_space (last P)"
  shows "occurrences P (trimEnd s) = occurrences P s"
proof -
  have "last P \<notin> set (rev (takeWhile is_white_space (rev s)))"
    using assms(2) by (auto dest: set_takeWhileD)
  from occurrences_drop_suffix [OF assms(1) this, of "trimEnd s"] trimEnd_decompose [of s]
  show ?thesis by simp
qed

lemma occurrences_trim:
  "P \<noteq> [] \<Longrightarrow> \<not> is_white_space (hd P) \<Longrightarrow> \<not> is_white_space (last P) \<Longrightarrow>
   occurrences P (trim s) = occurrences P s"
  by (simp add: trim_def occurrences_trimStart occurrences_trimEnd)

lemma prefix_replace_escaped:
  "92 \<notin> set Q \<Longrightarrow> y \<notin> set Q \<Longrightarrow> prefix Q (replace_escaped x y s) \<longleftrightarrow> prefix Q s"
proof (induction x y s arbitrary: Q rule: replace_escaped.induct)
  case (1 x y a b s)
  show ?case
  proof (cases Q)
    case Nil then show ?thesis by simp
  next
    case (Cons q Q')
    with "1.prems" have q: "q \<noteq> 92" "q \<noteq> y" "92 \<notin> set Q'" "y \<notin> set Q'" by auto
    show ?thesis
    proof (cases "a = 92 \<and> b = x")
      case True
      with Cons q show ?thesis by simp
    next
      case False
      with "1.IH"(2) [OF False q(3,4)] Cons show ?thesis by auto
    qed
  qed
qed simp_all

lemma occurrences_replace_escaped:
  "P \<noteq> [] \<Longrightarrow> 92 \<notin> set P \<Longrightarrow> y \<notin> set P \<Longrightarrow> hd P \<noteq> x \<Longrightarrow>
   occurrences P (replace_escaped x y s) = occurrences P s"
proof (induction x y s rule: replace_escaped.induct)
  case (1 x y a b s)
  from "1.prems" have hd: "hd P \<noteq> 92" "hd P \<noteq> y" by (cases P; auto)+
  show ?case
  proof (cases "a = 92 \<and> b = x")
    case True
    from "1.IH"(1) [OF True "1.prems"] have "occurrences P (replace_escaped x y s) = occurrences P s" .
    moreover have "occurrences P (y # replace_escaped x y s) = occurrences P (replace_escaped x y s)"
      using "1.prems"(1) hd(2) by (intro occurrences_Cons_other) auto
    moreover have "occurrences P (92 # x # s) = occurrences P s"
      using "1.prems"(1,4) hd(1) by (simp add: occurrences_Cons_other del: occurrences.simps)
    ultimately show ?thesis using True by (simp del: occurrences.simps)
  next
    case False
    from "1.IH"(2) [OF False "1.prems"]
    have ih: "occurrences P (replace_escaped x y (b # s)) = occurrences P (b # s)" .
    from False have re: "replace_escaped x y (a # b # s) = a # replace_escaped x y (b # s)"
      by auto
    have "prefix P (replace_escaped x y (a # b # s)) \<longleftrightarrow> prefix P (a # b # s)"
      using "1.prems"(2,3) by (rule prefix_replace_escaped)
    then have "prefix P (a # replace_escaped x y (b # s)) \<longleftrightarrow> prefix P (a # b # s)"
      by (simp only: re)
    with ih show ?thesis by (simp only: re occurrences.simps)
  qed
qed simp_all

lemma occurrences_dedent:
  assumes "plain_pattern P"
  shows "occurrences P (dedent raw vals) = occurrences P (interpolate raw vals)"
proof -
  from assms have P: "P \<noteq> []" "\<not> is_white_space (hd P)" "\<not> is_white_space (last P)"
    "LF \<notin> set P" "92 \<notin> set P" "10 \<notin> set P" "hd P \<noteq> 110"
    by (simp_all add: plain_pattern_def LF_def)
  show ?thesis
    unfolding dedent_def
    by (simp only: occurrences_replace_escaped [OF P(1,5,6,7)] occurrences_trim [OF P(1,2,3)]
        occurrences_strip_indentation [OF P(1,2,4)])
qed


section \<open>The tag keeps what the text contains\<close>

lemma sublist_trim:
  assumes "Q \<noteq> []" "\<not> is_white_space (hd Q)" "\<not> is_white_space (last Q)" "sublist Q s"
  shows "sublist Q (trim s)"
  by (metis assms occurrences_trim occurrences_pos_iff)

lemma sublist_dedent:
  assumes "plain_pattern P" "sublist P (interpolate raw vals)"
  shows "sublist P (dedent raw vals)"
proof -
  from assms(1) have "P \<noteq> []" by (simp add: plain_pattern_def)
  then show ?thesis by (metis assms occurrences_dedent occurrences_pos_iff)
qed

lemma split_on_append_sep:
  "split_on c (xs @ c # ys) = split_on c xs @ split_on c ys"
proof (induction xs)
  case Nil then show ?case by simp
next
  case (Cons x xs)
  obtain seg segs where "split_on c xs = seg # segs"
    using split_on_not_Nil by (cases "split_on c xs") auto
  with Cons show ?case by simp
qed

lemma join_with_append:
  "A \<noteq> [] \<Longrightarrow> B \<noteq> [] \<Longrightarrow> join_with c (A @ B) = join_with c A @ c # join_with c B"
proof (induction c A rule: join_with.induct)
  case (2 sep x)
  then show ?case by (simp add: join_with_Cons)
next
  case (3 sep x y ys)
  then show ?case by simp
qed simp

lemma replace_escaped_append_plain:
  "Q \<noteq> [] \<Longrightarrow> 92 \<notin> set Q \<Longrightarrow> replace_escaped x y (Q @ W) = Q @ replace_escaped x y W"
proof (induction Q)
  case Nil then show ?case by simp
next
  case (Cons a Q)
  show ?case
  proof (cases Q)
    case Nil
    with Cons.prems show ?thesis by (cases W) auto
  next
    case (Cons b Q')
    with Cons.IH Cons.prems show ?thesis by auto
  qed
qed

lemma replace_escaped_prepend:
  "Z \<noteq> [] \<Longrightarrow> hd Z \<noteq> x \<Longrightarrow> \<exists>U'. replace_escaped x y (U @ Z) = U' @ replace_escaped x y Z"
proof (induction x y U rule: replace_escaped.induct)
  case (1 x y a b s)
  show ?case
  proof (cases "a = 92 \<and> b = x")
    case True
    from "1.IH"(1) [OF True "1.prems"] obtain U' where
      "replace_escaped x y (s @ Z) = U' @ replace_escaped x y Z" by blast
    with True have "replace_escaped x y ((a # b # s) @ Z) = (y # U') @ replace_escaped x y Z"
      by simp
    then show ?thesis by blast
  next
    case False
    from "1.IH"(2) [OF False "1.prems"] obtain U' where
      "replace_escaped x y ((b # s) @ Z) = U' @ replace_escaped x y Z" by blast
    with False have "replace_escaped x y ((a # b # s) @ Z) = (a # U') @ replace_escaped x y Z"
      by auto
    then show ?thesis by blast
  qed
next
  case (2 x y a)
  then have "replace_escaped x y ([a] @ Z) = [a] @ replace_escaped x y Z"
    by (cases Z) auto
  then show ?case by blast
next
  case (3 x y)
  have "replace_escaped x y ([] @ Z) = [] @ replace_escaped x y Z" by simp
  then show ?case by blast
qed

lemma sublist_replace_escaped:
  assumes "Q \<noteq> []" "92 \<notin> set Q" "hd Q \<noteq> x" "sublist Q s"
  shows "sublist Q (replace_escaped x y s)"
proof -
  from assms(4) obtain U W where s: "s = U @ Q @ W" by (auto simp: sublist_def)
  from assms(1,3) have "Q @ W \<noteq> []" "hd (Q @ W) \<noteq> x" by simp_all
  from replace_escaped_prepend [OF this, of y U] obtain U' where
    "replace_escaped x y (U @ Q @ W) = U' @ replace_escaped x y (Q @ W)" by blast
  with replace_escaped_append_plain [OF assms(1,2), of x y W] s
  have "replace_escaped x y s = U' @ Q @ replace_escaped x y W" by simp
  then show ?thesis by (auto simp: sublist_def)
qed


lemma is_white_space_SP [simp]: "is_white_space SP"
  by (simp add: is_white_space_def SP_def)

lemma takeWhile_white_space_indented:
  "K \<noteq> [] \<Longrightarrow> \<not> is_white_space (hd K) \<Longrightarrow>
   takeWhile is_white_space (replicate i SP @ K) = replicate i SP"
  by (induction i) (cases K; simp)+

lemma dropWhile_white_space_indented:
  "K \<noteq> [] \<Longrightarrow> \<not> is_white_space (hd K) \<Longrightarrow>
   dropWhile is_white_space (replicate i SP @ K) = K"
  by (induction i) (cases K; simp)+

lemma slice_line_indented:
  assumes "K \<noteq> []" "\<not> is_white_space (hd K)" "mindent_loop None ls = Some m"
    "replicate i SP @ K \<in> set ls"
  shows "\<exists>i'\<le>i. slice_line m (replicate i SP @ K) = replicate i' SP @ K"
proof (cases i)
  case 0
  from assms(1,2) have "take 1 K \<noteq> [32]" "take 1 K \<noteq> [9]"
    by (cases K; auto simp: is_white_space_def)+
  with 0 show ?thesis by (simp add: slice_line_def)
next
  case (Suc n)
  with assms(1,2) have "line_indent (replicate i SP @ K) = Some i"
    by (simp add: line_indent_def takeWhile_white_space_indented dropWhile_white_space_indented
        del: replicate_Suc)
  from mindent_loop_le [OF assms(3,4) this] have "m \<le> i" .
  moreover from Suc have "take 1 (replicate i SP @ K) = [32]" by (simp add: SP_def)
  ultimately have "slice_line m (replicate i SP @ K) = replicate (i - m) SP @ K"
    by (simp add: slice_line_def)
  then show ?thesis by (metis diff_le_self)
qed

lemma split_on_two_lines:
  assumes "c \<notin> set L1" "c \<notin> set L2"
  shows "split_on c (X @ c # L1 @ c # L2 @ c # Y) = split_on c X @ [L1, L2] @ split_on c Y"
proof -
  have "split_on c (L2 @ c # Y) = [L2] @ split_on c Y"
    using assms(2) by (simp add: split_on_append_sep split_on_no_sep)
  then have "split_on c (L1 @ c # L2 @ c # Y) = [L1] @ [L2] @ split_on c Y"
    using assms(1) by (simp add: split_on_append_sep split_on_no_sep)
  then show ?thesis by (simp add: split_on_append_sep)
qed

lemma join_with_two_lines:
  assumes "A \<noteq> []" "B \<noteq> []"
  shows "join_with c (A @ [a, b] @ B) = join_with c A @ c # a @ c # b @ c # join_with c B"
proof -
  from assms(2) have "join_with c ([a, b] @ B) = a @ c # b @ c # join_with c B"
    by (simp add: join_with_Cons)
  with join_with_append [OF assms(1), of "[a, b] @ B" c] show ?thesis by simp
qed

lemma strip_indentation_two_lines:
  assumes K: "K \<noteq> []" "\<not> is_white_space (hd K)" "LF \<notin> set K"
    and V: "V \<noteq> []" "\<not> is_white_space (hd V)" "LF \<notin> set V"
  shows "\<exists>U W k. k \<le> j \<and>
     strip_indentation (X @ LF # (replicate i SP @ K) @ LF # (replicate j SP @ V) @ LF # Y) =
       U @ (K @ LF # replicate k SP @ V) @ W"
proof -
  let ?L1 = "replicate i SP @ K" and ?L2 = "replicate j SP @ V"
  let ?s = "X @ LF # ?L1 @ LF # ?L2 @ LF # Y"
  have noLF: "LF \<notin> set ?L1" "LF \<notin> set ?L2"
    using K(3) V(3) by (auto simp: LF_def SP_def)
  have lines: "split_on LF ?s = split_on LF X @ [?L1, ?L2] @ split_on LF Y"
    using noLF by (rule split_on_two_lines)
  show ?thesis
  proof (cases "mindent_loop None (split_on LF ?s)")
    case None
    then have "strip_indentation ?s = (X @ LF # replicate i SP) @ (K @ LF # replicate j SP @ V) @ (LF # Y)"
      by (simp add: strip_indentation_def)
    then show ?thesis by blast
  next
    case (Some m)
    have in1: "?L1 \<in> set (split_on LF ?s)" and in2: "?L2 \<in> set (split_on LF ?s)"
      unfolding lines by simp_all
    from slice_line_indented [OF K(1,2) Some in1] obtain i' where
      i': "slice_line m ?L1 = replicate i' SP @ K" by blast
    from slice_line_indented [OF V(1,2) Some in2] obtain j' where
      j': "j' \<le> j" "slice_line m ?L2 = replicate j' SP @ V" by blast
    have "map (slice_line m) (split_on LF ?s) =
        map (slice_line m) (split_on LF X) @ [replicate i' SP @ K, replicate j' SP @ V] @
        map (slice_line m) (split_on LF Y)"
      by (simp only: lines map_append list.map i' j')
    then have "join_with LF (map (slice_line m) (split_on LF ?s)) =
        join_with LF (map (slice_line m) (split_on LF X)) @ LF # (replicate i' SP @ K) @
        LF # (replicate j' SP @ V) @ LF # join_with LF (map (slice_line m) (split_on LF Y))"
      using join_with_two_lines [of "map (slice_line m) (split_on LF X)"
          "map (slice_line m) (split_on LF Y)" LF "replicate i' SP @ K" "replicate j' SP @ V"]
      by (simp add: split_on_not_Nil)
    with Some have "strip_indentation ?s =
        (join_with LF (map (slice_line m) (split_on LF X)) @ LF # replicate i' SP) @
        (K @ LF # replicate j' SP @ V) @
        (LF # join_with LF (map (slice_line m) (split_on LF Y)))"
      by (simp add: strip_indentation_def)
    with j'(1) show ?thesis by blast
  qed
qed

lemma dedent_two_lines:
  assumes interp: "interpolate raw vals =
      X @ LF # (replicate i SP @ K) @ LF # (replicate j SP @ V) @ LF # Y"
    and K: "K \<noteq> []" "\<not> is_white_space (hd K)" "LF \<notin> set K" "92 \<notin> set K" "hd K \<noteq> 110"
    and V: "V \<noteq> []" "\<not> is_white_space (hd V)" "\<not> is_white_space (last V)" "LF \<notin> set V"
      "92 \<notin> set V"
  shows "\<exists>k\<le>j. sublist (K @ LF # replicate k SP @ V) (dedent raw vals)"
proof -
  from strip_indentation_two_lines [OF K(1,2,3) V(1,2,4), of j X i Y] interp
  obtain U W k where k: "k \<le> j"
    and st: "strip_indentation (interpolate raw vals) = U @ (K @ LF # replicate k SP @ V) @ W"
    by auto
  let ?Q = "K @ LF # replicate k SP @ V"
  have Q: "?Q \<noteq> []" "hd ?Q = hd K" "last ?Q = last V" "92 \<notin> set ?Q"
    using K V by (simp_all add: LF_def SP_def)
  from st have "sublist ?Q (strip_indentation (interpolate raw vals))"
    by (auto simp: sublist_def)
  then have "sublist ?Q (trim (strip_indentation (interpolate raw vals)))"
    using Q K(2) V(3) by (intro sublist_trim) simp_all
  then have "sublist ?Q (dedent raw vals)"
    unfolding dedent_def using Q K(5) by (intro sublist_replace_escaped) simp_all
  with k show ?thesis by blast
qed

section \<open>Templates\<close>

lemma join_with_Cons_ne: "l \<noteq> [] \<Longrightarrow> join_with c (l # ls) \<noteq> []"
  by (cases ls) auto

lemma hd_join_with: "l \<noteq> [] \<Longrightarrow> hd (join_with c (l # ls)) = hd l"
  by (cases ls) auto

lemma join_with_last_ne: "ls \<noteq> [] \<Longrightarrow> last ls \<noteq> [] \<Longrightarrow> join_with c ls \<noteq> []"
  by (induction c ls rule: join_with.induct) auto

lemma last_join_with: "ls \<noteq> [] \<Longrightarrow> last ls \<noteq> [] \<Longrightarrow> last (join_with c ls) = last (last ls)"
proof (induction c ls rule: join_with.induct)
  case (3 sep x y ys)
  then have "join_with sep (y # ys) \<noteq> []" by (intro join_with_last_ne) auto
  with 3 show ?case by simp
qed simp_all

lemma replace_escaped_id: "92 \<notin> set s \<Longrightarrow> replace_escaped x y s = s"
  by (induction x y s rule: replace_escaped.induct) auto

lemma replace_escaped_newline_id: "92 \<notin> set s \<Longrightarrow> replace_escaped_newline s = s"
  by (induction s rule: replace_escaped_newline.induct) auto

lemma escape_special_id: "92 \<notin> set s \<Longrightarrow> escape_special s = s"
  by (simp add: escape_special_def replace_escaped_id replace_escaped_newline_id)

lemma set_join_with: "set (join_with c ls) \<subseteq> insert c (\<Union> (set ` set ls))"
  by (induction c ls rule: join_with.induct) auto

lemma escape_special_lines:
  "list_all (list_all (\<lambda>c. c \<noteq> 92)) ls \<Longrightarrow> escape_special (join_with LF ls) = join_with LF ls"
proof (rule escape_special_id)
  assume "list_all (list_all (\<lambda>c. c \<noteq> 92)) ls"
  then have "92 \<notin> \<Union> (set ` set ls)" by (auto simp: list_all_iff)
  with set_join_with [of LF ls] show "92 \<notin> set (join_with LF ls)" by (auto simp: LF_def)
qed

lemma interpolate_5:
  "interpolate [r0, r1, r2, r3, r4] [v0, v1, v2, v3] =
     escape_special r0 @ v0 @ escape_special r1 @ v1 @ escape_special r2 @ v2 @
     escape_special r3 @ v3 @ escape_special r4"
  by simp

lemma number_string_lockVal:
  "number_string (lockVal b) = (if b then lit ''1'' else lit ''0'')"
  by (simp add: lockVal_def lit_def number_string.simps)

lemmas dedent_eval = dedent_def escape_special_def strip_indentation_def line_indent_def
  slice_line_def trim_def trimStart_def trimEnd_def is_white_space_def lit_def LF_def

lemma getKube_maybeMode_eq:
  \<open>getKube_maybeMode cfg =
     (if hasMultipleInstances cfg
      then lit ''- name: REACT_APP_INSTANCE_SELECTION_MODE'' @ [LF] @ lit ''  value: "'' @
           mode_value (REACT_APP_INSTANCE_SELECTION_MODE cfg) @ lit ''"''
      else [])\<close>
  by (cases "REACT_APP_INSTANCE_SELECTION_MODE cfg")
    (simp_all add: getKube_maybeMode_def getKube_maybeMode_raw0_def getKube_maybeMode_raw1_def
      dedent_eval)

section \<open>Occurrences of a pattern in a template\<close>

lemma occurrences_append_last:
  assumes "P \<noteq> []" "q \<notin> set P" "a \<noteq> []" "last a = q"
  shows "occurrences P (a @ b) = occurrences P a + occurrences P b"
proof -
  from assms(3,4) have a: "a = butlast a @ [q]" by (metis append_butlast_last_id)
  have "occurrences P (butlast a @ q # b) = occurrences P (butlast a) + occurrences P b"
    using assms(1,2) by (rule occurrences_sep)
  moreover have "occurrences P (butlast a @ q # []) = occurrences P (butlast a) + occurrences P []"
    using assms(1,2) by (rule occurrences_sep)
  ultimately show ?thesis
    using a by (metis add.right_neutral append.assoc append_Cons append_Nil occurrences.simps(1))
qed

lemma occurrences_append_hd:
  assumes "P \<noteq> []" "q \<notin> set P" "b \<noteq> []" "hd b = q"
  shows "occurrences P (a @ b) = occurrences P a + occurrences P b"
proof -
  from assms(3,4) have b: "b = q # tl b" by (cases b) auto
  have "occurrences P (a @ q # tl b) = occurrences P a + occurrences P (tl b)"
    using assms(1,2) by (rule occurrences_sep)
  moreover have "occurrences P ([] @ q # tl b) = occurrences P [] + occurrences P (tl b)"
    using assms(1,2) by (rule occurrences_sep)
  ultimately show ?thesis using b by (metis add.left_neutral append_Nil occurrences.simps(1))
qed

lemma occurrences_template:
  assumes P: "P \<noteq> []" "34 \<notin> set P"
    and r0: "r0 \<noteq> []" "last r0 = 34"
    and r1: "r1 \<noteq> []" "hd r1 = 34" "last r1 = 34"
    and r2: "r2 \<noteq> []" "hd r2 = 34" "last r2 = 34"
    and r3: "r3 \<noteq> []" "hd r3 = 34"
  shows "occurrences P (r0 @ v0 @ r1 @ v1 @ r2 @ v2 @ r3 @ rest) =
     occurrences P r0 + occurrences P v0 + occurrences P r1 + occurrences P v1 +
     occurrences P r2 + occurrences P v2 + occurrences P (r3 @ rest)"
proof -
  have 1: "occurrences P (r0 @ v0 @ r1 @ v1 @ r2 @ v2 @ r3 @ rest) =
      occurrences P r0 + occurrences P (v0 @ r1 @ v1 @ r2 @ v2 @ r3 @ rest)"
    using P r0 by (rule occurrences_append_last)
  have 2: "occurrences P (v0 @ r1 @ v1 @ r2 @ v2 @ r3 @ rest) =
      occurrences P v0 + occurrences P (r1 @ v1 @ r2 @ v2 @ r3 @ rest)"
    using P r1(1,2) by (intro occurrences_append_hd) auto
  have 3: "occurrences P (r1 @ v1 @ r2 @ v2 @ r3 @ rest) =
      occurrences P r1 + occurrences P (v1 @ r2 @ v2 @ r3 @ rest)"
    using P r1(1,3) by (rule occurrences_append_last)
  have 4: "occurrences P (v1 @ r2 @ v2 @ r3 @ rest) =
      occurrences P v1 + occurrences P (r2 @ v2 @ r3 @ rest)"
    using P r2(1,2) by (intro occurrences_append_hd) auto
  have 5: "occurrences P (r2 @ v2 @ r3 @ rest) = occurrences P r2 + occurrences P (v2 @ r3 @ rest)"
    using P r2(1,3) by (rule occurrences_append_last)
  have 6: "occurrences P (v2 @ r3 @ rest) = occurrences P v2 + occurrences P (r3 @ rest)"
    using P r3 by (intro occurrences_append_hd) auto
  show ?thesis by (simp only: 1 2 3 4 5 6)
qed

lemma occurrences_instances:
  assumes "P \<noteq> []" "\<not> is_white_space (hd P)" "\<not> is_white_space (last P)" "comma \<notin> set P"
  shows "occurrences P (instances s) = occurrences P s"
proof -
  have "map (\<lambda>seg. occurrences P (trim seg)) (split_on comma s) =
      map (occurrences P) (split_on comma s)"
    by (rule map_cong) (simp_all add: occurrences_trim [OF assms(1,2,3)])
  then have "sum_list (map (occurrences P) (map trim (split_on comma s))) =
      sum_list (map (occurrences P) (split_on comma s))"
    by (simp only: map_map comp_def)
  then have "occurrences P (join_with comma (map trim (split_on comma s))) =
      occurrences P (join_with comma (split_on comma s))"
    by (simp only: occurrences_join_with [OF assms(1,4)])
  then show ?thesis by (simp add: instances_def join_with_split_on)
qed

section \<open>The selection-mode token in the four renderers\<close>

lemma token_facts:
  "selection_mode_token \<noteq> []" "34 \<notin> set selection_mode_token"
  "\<not> is_white_space (hd selection_mode_token)" "\<not> is_white_space (last selection_mode_token)"
  "comma \<notin> set selection_mode_token" "plain_pattern selection_mode_token"
  "LF \<notin> set selection_mode_token"
  by (simp_all add: selection_mode_token_def lit_def is_white_space_def comma_def LF_def
      plain_pattern_def)

lemma token_lock: "occurrences selection_mode_token (number_string (lockVal b)) = 0"
  by (simp add: number_string_lockVal selection_mode_token_def lit_def)

lemmas getDockerCommand_raws =
  getDockerCommand_raw0_def getDockerCommand_raw1_def getDockerCommand_raw2_def
  getDockerCommand_raw3_def getDockerCommand_raw4_def

lemma escape_getDockerCommand:
  "escape_special getDockerCommand_raw0 = getDockerCommand_raw0"
  "escape_special getDockerCommand_raw1 = getDockerCommand_raw1"
  "escape_special getDockerCommand_raw2 = getDockerCommand_raw2"
  "escape_special getDockerCommand_raw3 = getDockerCommand_raw3"
  "escape_special getDockerCommand_raw4 = getDockerCommand_raw4"
  by (simp_all add: escape_special_def getDockerCommand_raws lit_def LF_def)

lemma getDockerCommand_quotes:
  "getDockerCommand_raw0 \<noteq> []" "last getDockerCommand_raw0 = 34"
  "getDockerCommand_raw1 \<noteq> []" "hd getDockerCommand_raw1 = 34" "last getDockerCommand_raw1 = 34"
  "getDockerCommand_raw2 \<noteq> []" "hd getDockerCommand_raw2 = 34" "last getDockerCommand_raw2 = 34"
  "getDockerCommand_raw3 \<noteq> []" "hd getDockerCommand_raw3 = 34"
  by (simp_all add: getDockerCommand_raws last_join_with hd_join_with join_with_last_ne lit_def
      del: join_with.simps)

lemma getDockerCommand_interpolate:
  "interpolate
     [getDockerCommand_raw0, getDockerCommand_raw1, getDockerCommand_raw2,
      getDockerCommand_raw3, getDockerCommand_raw4] [v0, v1, v2, v3] =
     getDockerCommand_raw0 @ v0 @ getDockerCommand_raw1 @ v1 @ getDockerCommand_raw2 @ v2 @
     getDockerCommand_raw3 @ v3 @ getDockerCommand_raw4"
  by (simp only: interpolate_5 escape_getDockerCommand)

lemma getDockerCommand_token_raws:
  "occurrences selection_mode_token getDockerCommand_raw0 = 0"
  "occurrences selection_mode_token getDockerCommand_raw1 = 0"
  "occurrences selection_mode_token getDockerCommand_raw2 = 0"
  "occurrences selection_mode_token getDockerCommand_raw4 = 0"
  by (simp_all add: getDockerCommand_raws occurrences_join_with selection_mode_token_def lit_def LF_def
      del: join_with.simps)

lemma getDockerCommand_token_tail:
  "occurrences selection_mode_token (getDockerCommand_raw3 @ getDockerCommand_mode cfg @ getDockerCommand_raw4) =
   (if hasMultipleInstances cfg then 1 else 0)"
  by (cases "REACT_APP_INSTANCE_SELECTION_MODE cfg")
    (simp_all add: getDockerCommand_raw3_def getDockerCommand_raw4_def getDockerCommand_mode_def selection_mode_token_def lit_def
      LF_def)

lemma getDockerCommand_token:
  "occurrences selection_mode_token (getDockerCommand cfg) =
     occurrences selection_mode_token (REACT_APP_NAME cfg) +
     occurrences selection_mode_token (REACT_APP_DEFAULT_INSTANCE cfg) +
     (if hasMultipleInstances cfg then 1 else 0)"
proof -
  have "occurrences selection_mode_token (getDockerCommand cfg) =
      occurrences selection_mode_token
        (getDockerCommand_raw0 @ trim (REACT_APP_NAME cfg) @
         getDockerCommand_raw1 @ instances (REACT_APP_DEFAULT_INSTANCE cfg) @
         getDockerCommand_raw2 @ number_string (lockVal (REACT_APP_LOCK_TO_DEFAULT_INSTANCE cfg)) @
         getDockerCommand_raw3 @ getDockerCommand_mode cfg @ getDockerCommand_raw4)"
    by (simp only: getDockerCommand_def occurrences_dedent [OF token_facts(6)] getDockerCommand_interpolate)
  also have "\<dots> =
      occurrences selection_mode_token getDockerCommand_raw0 +
      occurrences selection_mode_token (trim (REACT_APP_NAME cfg)) +
      occurrences selection_mode_token getDockerCommand_raw1 +
      occurrences selection_mode_token (instances (REACT_APP_DEFAULT_INSTANCE cfg)) +
      occurrences selection_mode_token getDockerCommand_raw2 +
      occurrences selection_mode_token
        (number_string (lockVal (REACT_APP_LOCK_TO_DEFAULT_INSTANCE cfg))) +
      occurrences selection_mode_token (getDockerCommand_raw3 @ getDockerCommand_mode cfg @ getDockerCommand_raw4)"
    by (rule occurrences_template [OF token_facts(1,2) getDockerCommand_quotes])
  also have "\<dots> =
      occurrences selection_mode_token (REACT_APP_NAME cfg) +
      occurrences selection_mode_token (REACT_APP_DEFAULT_INSTANCE cfg) +
      (if hasMultipleInstances cfg then 1 else 0)"
    by (simp only: getDockerCommand_token_raws getDockerCommand_token_tail token_lock
        occurrences_trim [OF token_facts(1,3,4)] occurrences_instances [OF token_facts(1,3,4,5)]
        add_0_right add_0)
  finally show ?thesis .
qed

lemmas getDockerfile_raws =
  getDockerfile_raw0_def getDockerfile_raw1_def getDockerfile_raw2_def
  getDockerfile_raw3_def getDockerfile_raw4_def

lemma escape_getDockerfile:
  "escape_special getDockerfile_raw0 = getDockerfile_raw0"
  "escape_special getDockerfile_raw1 = getDockerfile_raw1"
  "escape_special getDockerfile_raw2 = getDockerfile_raw2"
  "escape_special getDockerfile_raw3 = getDockerfile_raw3"
  "escape_special getDockerfile_raw4 = getDockerfile_raw4"
  by (simp_all add: getDockerfile_raws escape_special_lines lit_def del: join_with.simps)

lemma getDockerfile_quotes:
  "getDockerfile_raw0 \<noteq> []" "last getDockerfile_raw0 = 34"
  "getDockerfile_raw1 \<noteq> []" "hd getDockerfile_raw1 = 34" "last getDockerfile_raw1 = 34"
  "getDockerfile_raw2 \<noteq> []" "hd getDockerfile_raw2 = 34" "last getDockerfile_raw2 = 34"
  "getDockerfile_raw3 \<noteq> []" "hd getDockerfile_raw3 = 34"
  by (simp_all add: getDockerfile_raws last_join_with hd_join_with join_with_last_ne lit_def
      del: join_with.simps)

lemma getDockerfile_interpolate:
  "interpolate
     [getDockerfile_raw0, getDockerfile_raw1, getDockerfile_raw2,
      getDockerfile_raw3, getDockerfile_raw4] [v0, v1, v2, v3] =
     getDockerfile_raw0 @ v0 @ getDockerfile_raw1 @ v1 @ getDockerfile_raw2 @ v2 @
     getDockerfile_raw3 @ v3 @ getDockerfile_raw4"
  by (simp only: interpolate_5 escape_getDockerfile)

lemma getDockerfile_token_raws:
  "occurrences selection_mode_token getDockerfile_raw0 = 0"
  "occurrences selection_mode_token getDockerfile_raw1 = 0"
  "occurrences selection_mode_token getDockerfile_raw2 = 0"
  "occurrences selection_mode_token getDockerfile_raw4 = 0"
  by (simp_all add: getDockerfile_raws occurrences_join_with selection_mode_token_def lit_def LF_def
      del: join_with.simps)

lemma getDockerfile_token_tail:
  "occurrences selection_mode_token (getDockerfile_raw3 @ getDockerfile_mode cfg @ getDockerfile_raw4) =
   (if hasMultipleInstances cfg then 1 else 0)"
proof -
  have r4: "getDockerfile_raw4 \<noteq> []" "hd getDockerfile_raw4 = LF"
    by (simp_all add: getDockerfile_raw4_def)
  have "occurrences selection_mode_token ((getDockerfile_raw3 @ getDockerfile_mode cfg) @ getDockerfile_raw4) =
      occurrences selection_mode_token (getDockerfile_raw3 @ getDockerfile_mode cfg) +
      occurrences selection_mode_token getDockerfile_raw4"
    using token_facts(1,7) r4 by (rule occurrences_append_hd)
  moreover have "occurrences selection_mode_token (getDockerfile_raw3 @ getDockerfile_mode cfg) =
      (if hasMultipleInstances cfg then 1 else 0)"
    by (cases "REACT_APP_INSTANCE_SELECTION_MODE cfg")
      (simp_all add: getDockerfile_raw3_def getDockerfile_mode_def selection_mode_token_def lit_def LF_def)
  ultimately show ?thesis by (simp add: getDockerfile_token_raws)
qed

lemma getDockerfile_token:
  "occurrences selection_mode_token (getDockerfile cfg) =
     occurrences selection_mode_token (REACT_APP_NAME cfg) +
     occurrences selection_mode_token (REACT_APP_DEFAULT_INSTANCE cfg) +
     (if hasMultipleInstances cfg then 1 else 0)"
proof -
  have "occurrences selection_mode_token (getDockerfile cfg) =
      occurrences selection_mode_token
        (getDockerfile_raw0 @ trim (REACT_APP_NAME cfg) @
         getDockerfile_raw1 @ instances (REACT_APP_DEFAULT_INSTANCE cfg) @
         getDockerfile_raw2 @ number_string (lockVal (REACT_APP_LOCK_TO_DEFAULT_INSTANCE cfg)) @
         getDockerfile_raw3 @ getDockerfile_mode cfg @ getDockerfile_raw4)"
    by (simp only: getDockerfile_def occurrences_trim [OF token_facts(1,3,4)]
        occurrences_dedent [OF token_facts(6)] getDockerfile_interpolate)
  also have "\<dots> =
      occurrences selection_mode_token getDockerfile_raw0 +
      occurrences selection_mode_token (trim (REACT_APP_NAME cfg)) +
      occurrences selection_mode_token getDockerfile_raw1 +
      occurrences selection_mode_token (instances (REACT_APP_DEFAULT_INSTANCE cfg)) +
      occurrences selection_mode_token getDockerfile_raw2 +
      occurrences selection_mode_token
        (number_string (lockVal (REACT_APP_LOCK_TO_DEFAULT_INSTANCE cfg))) +
      occurrences selection_mode_token (getDockerfile_raw3 @ getDockerfile_mode cfg @ getDockerfile_raw4)"
    by (rule occurrences_template [OF token_facts(1,2) getDockerfile_quotes])
  also have "\<dots> =
      occurrences selection_mode_token (REACT_APP_NAME cfg) +
      occurrences selection_mode_token (REACT_APP_DEFAULT_INSTANCE cfg) +
      (if hasMultipleInstances cfg then 1 else 0)"
    by (simp only: getDockerfile_token_raws getDockerfile_token_tail token_lock
        occurrences_trim [OF token_facts(1,3,4)] occurrences_instances [OF token_facts(1,3,4,5)]
        add_0_right add_0)
  finally show ?thesis .
qed

lemmas getCompose_raws =
  getCompose_raw0_def getCompose_raw1_def getCompose_raw2_def
  getCompose_raw3_def getCompose_raw4_def

lemma escape_getCompose:
  "escape_special getCompose_raw0 = getCompose_raw0"
  "escape_special getCompose_raw1 = getCompose_raw1"
  "escape_special getCompose_raw2 = getCompose_raw2"
  "escape_special getCompose_raw3 = getCompose_raw3"
  "escape_special getCompose_raw4 = getCompose_raw4"
  by (simp_all add: getCompose_raws escape_special_lines lit_def del: join_with.simps)

lemma getCompose_quotes:
  "getCompose_raw0 \<noteq> []" "last getCompose_raw0 = 34"
  "getCompose_raw1 \<noteq> []" "hd getCompose_raw1 = 34" "last getCompose_raw1 = 34"
  "getCompose_raw2 \<noteq> []" "hd getCompose_raw2 = 34" "last getCompose_raw2 = 34"
  "getCompose_raw3 \<noteq> []" "hd getCompose_raw3 = 34"
  by (simp_all add: getCompose_raws last_join_with hd_join_with join_with_last_ne lit_def
      del: join_with.simps)

lemma getCompose_interpolate:
  "interpolate
     [getCompose_raw0, getCompose_raw1, getCompose_raw2,
      getCompose_raw3, getCompose_raw4] [v0, v1, v2, v3] =
     getCompose_raw0 @ v0 @ getCompose_raw1 @ v1 @ getCompose_raw2 @ v2 @
     getCompose_raw3 @ v3 @ getCompose_raw4"
  by (simp only: interpolate_5 escape_getCompose)

lemma getCompose_token_raws:
  "occurrences selection_mode_token getCompose_raw0 = 0"
  "occurrences selection_mode_token getCompose_raw1 = 0"
  "occurrences selection_mode_token getCompose_raw2 = 0"
  "occurrences selection_mode_token getCompose_raw4 = 0"
  by (simp_all add: getCompose_raws occurrences_join_with selection_mode_token_def lit_def LF_def
      del: join_with.simps)

lemma getCompose_token_tail:
  "occurrences selection_mode_token (getCompose_raw3 @ getCompose_maybeMode cfg @ getCompose_raw4) =
   (if hasMultipleInstances cfg then 1 else 0)"
  by (cases "REACT_APP_INSTANCE_SELECTION_MODE cfg")
    (simp_all add: getCompose_raw3_def getCompose_raw4_def getCompose_maybeMode_def selection_mode_token_def lit_def
      LF_def)

lemma getCompose_token:
  "occurrences selection_mode_token (getCompose cfg) =
     occurrences selection_mode_token (REACT_APP_NAME cfg) +
     occurrences selection_mode_token (REACT_APP_DEFAULT_INSTANCE cfg) +
     (if hasMultipleInstances cfg then 1 else 0)"
proof -
  have "occurrences selection_mode_token (getCompose cfg) =
      occurrences selection_mode_token
        (getCompose_raw0 @ trim (REACT_APP_NAME cfg) @
         getCompose_raw1 @ instances (REACT_APP_DEFAULT_INSTANCE cfg) @
         getCompose_raw2 @ number_string (lockVal (REACT_APP_LOCK_TO_DEFAULT_INSTANCE cfg)) @
         getCompose_raw3 @ getCompose_maybeMode cfg @ getCompose_raw4)"
    by (simp only: getCompose_def occurrences_trim [OF token_facts(1,3,4)]
        occurrences_dedent [OF token_facts(6)] getCompose_interpolate)
  also have "\<dots> =
      occurrences selection_mode_token getCompose_raw0 +
      occurrences selection_mode_token (trim (REACT_APP_NAME cfg)) +
      occurrences selection_mode_token getCompose_raw1 +
      occurrences selection_mode_token (instances (REACT_APP_DEFAULT_INSTANCE cfg)) +
      occurrences selection_mode_token getCompose_raw2 +
      occurrences selection_mode_token
        (number_string (lockVal (REACT_APP_LOCK_TO_DEFAULT_INSTANCE cfg))) +
      occurrences selection_mode_token (getCompose_raw3 @ getCompose_maybeMode cfg @ getCompose_raw4)"
    by (rule occurrences_template [OF token_facts(1,2) getCompose_quotes])
  also have "\<dots> =
      occurrences selection_mode_token (REACT_APP_NAME cfg) +
      occurrences selection_mode_token (REACT_APP_DEFAULT_INSTANCE cfg) +
      (if hasMultipleInstances cfg then 1 else 0)"
    by (simp only: getCompose_token_raws getCompose_token_tail token_lock
        occurrences_trim [OF token_facts(1,3,4)] occurrences_instances [OF token_facts(1,3,4,5)]
        add_0_right add_0)
  finally show ?thesis .
qed

lemmas getKube_raws =
  getKube_raw0_def getKube_raw1_def getKube_raw2_def
  getKube_raw3_def getKube_raw4_def

lemma escape_getKube:
  "escape_special getKube_raw0 = getKube_raw0"
  "escape_special getKube_raw1 = getKube_raw1"
  "escape_special getKube_raw2 = getKube_raw2"
  "escape_special getKube_raw3 = getKube_raw3"
  "escape_special getKube_raw4 = getKube_raw4"
  by (simp_all add: getKube_raws escape_special_lines lit_def del: join_with.simps)

lemma getKube_quotes:
  "getKube_raw0 \<noteq> []" "last getKube_raw0 = 34"
  "getKube_raw1 \<noteq> []" "hd getKube_raw1 = 34" "last getKube_raw1 = 34"
  "getKube_raw2 \<noteq> []" "hd getKube_raw2 = 34" "last getKube_raw2 = 34"
  "getKube_raw3 \<noteq> []" "hd getKube_raw3 = 34"
  by (simp_all add: getKube_raws last_join_with hd_join_with join_with_last_ne lit_def
      del: join_with.simps)

lemma getKube_interpolate:
  "interpolate
     [getKube_raw0, getKube_raw1, getKube_raw2,
      getKube_raw3, getKube_raw4] [v0, v1, v2, v3] =
     getKube_raw0 @ v0 @ getKube_raw1 @ v1 @ getKube_raw2 @ v2 @
     getKube_raw3 @ v3 @ getKube_raw4"
  by (simp only: interpolate_5 escape_getKube)

lemma getKube_token_raws:
  "occurrences selection_mode_token getKube_raw0 = 0"
  "occurrences selection_mode_token getKube_raw1 = 0"
  "occurrences selection_mode_token getKube_raw2 = 0"
  "occurrences selection_mode_token getKube_raw4 = 0"
  by (simp_all add: getKube_raws occurrences_join_with selection_mode_token_def lit_def LF_def
      del: join_with.simps)

lemma getKube_token_tail:
  "occurrences selection_mode_token (getKube_raw3 @ getKube_maybeMode cfg @ getKube_raw4) =
   (if hasMultipleInstances cfg then 1 else 0)"
proof -
  have r4: "getKube_raw4 \<noteq> []" "hd getKube_raw4 = LF"
    by (simp_all add: getKube_raw4_def)
  have "occurrences selection_mode_token ((getKube_raw3 @ getKube_maybeMode cfg) @ getKube_raw4) =
      occurrences selection_mode_token (getKube_raw3 @ getKube_maybeMode cfg) +
      occurrences selection_mode_token getKube_raw4"
    using token_facts(1,7) r4 by (rule occurrences_append_hd)
  moreover have "occurrences selection_mode_token (getKube_raw3 @ getKube_maybeMode cfg) =
      (if hasMultipleInstances cfg then 1 else 0)"
    by (cases "REACT_APP_INSTANCE_SELECTION_MODE cfg")
      (simp_all add: getKube_raw3_def getKube_maybeMode_eq selection_mode_token_def lit_def LF_def)
  ultimately show ?thesis by (simp add: getKube_token_raws)
qed

lemma getKube_token:
  "occurrences selection_mode_token (getKube cfg) =
     occurrences selection_mode_token (REACT_APP_NAME cfg) +
     occurrences selection_mode_token (REACT_APP_DEFAULT_INSTANCE cfg) +
     (if hasMultipleInstances cfg then 1 else 0)"
proof -
  have "occurrences selection_mode_token (getKube cfg) =
      occurrences selection_mode_token
        (getKube_raw0 @ trim (REACT_APP_NAME cfg) @
         getKube_raw1 @ instances (REACT_APP_DEFAULT_INSTANCE cfg) @
         getKube_raw2 @ number_string (lockVal (REACT_APP_LOCK_TO_DEFAULT_INSTANCE cfg)) @
         getKube_raw3 @ getKube_maybeMode cfg @ getKube_raw4)"
    by (simp only: getKube_def occurrences_trim [OF token_facts(1,3,4)]
        occurrences_dedent [OF token_facts(6)] getKube_interpolate)
  also have "\<dots> =
      occurrences selection_mode_token getKube_raw0 +
      occurrences selection_mode_token (trim (REACT_APP_NAME cfg)) +
      occurrences selection_mode_token getKube_raw1 +
      occurrences selection_mode_token (instances (REACT_APP_DEFAULT_INSTANCE cfg)) +
      occurrences selection_mode_token getKube_raw2 +
      occurrences selection_mode_token
        (number_string (lockVal (REACT_APP_LOCK_TO_DEFAULT_INSTANCE cfg))) +
      occurrences selection_mode_token (getKube_raw3 @ getKube_maybeMode cfg @ getKube_raw4)"
    by (rule occurrences_template [OF token_facts(1,2) getKube_quotes])
  also have "\<dots> =
      occurrences selection_mode_token (REACT_APP_NAME cfg) +
      occurrences selection_mode_token (REACT_APP_DEFAULT_INSTANCE cfg) +
      (if hasMultipleInstances cfg then 1 else 0)"
    by (simp only: getKube_token_raws getKube_token_tail token_lock
        occurrences_trim [OF token_facts(1,3,4)] occurrences_instances [OF token_facts(1,3,4,5)]
        add_0_right add_0)
  finally show ?thesis .
qed

section \<open>What the renderers write\<close>

lemma sublist_template_value2:
  assumes "suffix K r2" "prefix Q r3"
  shows "sublist (K @ v2 @ Q) (r0 @ v0 @ r1 @ v1 @ r2 @ v2 @ r3 @ rest)"
proof -
  from assms obtain A B where "r2 = A @ K" "r3 = Q @ B" by (auto simp: suffix_def prefix_def)
  then have "r0 @ v0 @ r1 @ v1 @ r2 @ v2 @ r3 @ rest =
      (r0 @ v0 @ r1 @ v1 @ A) @ (K @ v2 @ Q) @ (B @ rest)" by simp
  then show ?thesis by (metis sublist_appendI)
qed

lemma sublist_template_value3:
  assumes "prefix P v3"
  shows "sublist P (r0 @ v0 @ r1 @ v1 @ r2 @ v2 @ r3 @ v3 @ r4)"
proof -
  from assms obtain B where "v3 = P @ B" by (auto simp: prefix_def)
  then have "r0 @ v0 @ r1 @ v1 @ r2 @ v2 @ r3 @ v3 @ r4 =
      (r0 @ v0 @ r1 @ v1 @ r2 @ v2 @ r3) @ P @ (B @ r4)" by simp
  then show ?thesis by (metis sublist_appendI)
qed

lemma plain_lock_entries:
  \<open>plain_pattern (lit ''-e REACT_APP_LOCK_TO_DEFAULT_INSTANCE="'' @ number_string (lockVal b) @ lit ''"'')\<close>
  \<open>plain_pattern (lit ''ENV REACT_APP_LOCK_TO_DEFAULT_INSTANCE="'' @ number_string (lockVal b) @ lit ''"'')\<close>
  \<open>plain_pattern (lit ''REACT_APP_LOCK_TO_DEFAULT_INSTANCE: "'' @ number_string (lockVal b) @ lit ''"'')\<close>
  by (simp_all add: plain_pattern_def number_string_lockVal lit_def is_white_space_def)

lemma lock_entry_raws:
  \<open>suffix (lit ''-e REACT_APP_LOCK_TO_DEFAULT_INSTANCE="'') getDockerCommand_raw2\<close>
  \<open>prefix (lit ''"'') getDockerCommand_raw3\<close>
  \<open>suffix (lit ''ENV REACT_APP_LOCK_TO_DEFAULT_INSTANCE="'') getDockerfile_raw2\<close>
  \<open>prefix (lit ''"'') getDockerfile_raw3\<close>
  \<open>suffix (lit ''REACT_APP_LOCK_TO_DEFAULT_INSTANCE: "'') getCompose_raw2\<close>
  \<open>prefix (lit ''"'') getCompose_raw3\<close>
  by (simp_all add: suffix_to_prefix getDockerCommand_raws getDockerfile_raws getCompose_raws
      lit_def LF_def)

lemma plain_pattern_trim:
  "plain_pattern P \<Longrightarrow> sublist P s \<Longrightarrow> sublist P (trim s)"
  by (simp add: plain_pattern_def sublist_trim)

lemma getDockerCommand_lock:
  \<open>sublist (lit ''-e REACT_APP_LOCK_TO_DEFAULT_INSTANCE="'' @
      number_string (lockVal (REACT_APP_LOCK_TO_DEFAULT_INSTANCE cfg)) @ lit ''"'')
     (getDockerCommand cfg)\<close>
  unfolding getDockerCommand_def
  by (intro sublist_dedent plain_lock_entries)
    (simp only: getDockerCommand_interpolate sublist_template_value2 [OF lock_entry_raws(1,2)])

lemma getDockerfile_lock:
  \<open>sublist (lit ''ENV REACT_APP_LOCK_TO_DEFAULT_INSTANCE="'' @
      number_string (lockVal (REACT_APP_LOCK_TO_DEFAULT_INSTANCE cfg)) @ lit ''"'')
     (getDockerfile cfg)\<close>
  unfolding getDockerfile_def
  by (intro plain_pattern_trim sublist_dedent plain_lock_entries)
    (simp only: getDockerfile_interpolate sublist_template_value2 [OF lock_entry_raws(3,4)])

lemma getCompose_lock:
  \<open>sublist (lit ''REACT_APP_LOCK_TO_DEFAULT_INSTANCE: "'' @
      number_string (lockVal (REACT_APP_LOCK_TO_DEFAULT_INSTANCE cfg)) @ lit ''"'')
     (getCompose cfg)\<close>
  unfolding getCompose_def
  by (intro plain_pattern_trim sublist_dedent plain_lock_entries)
    (simp only: getCompose_interpolate sublist_template_value2 [OF lock_entry_raws(5,6)])


lemma spaces_replicate:
  "lit ''  '' = replicate 2 SP"
  "lit ''                '' = replicate 16 SP"
  "lit ''                  '' = replicate 18 SP"
  by (simp_all add: lit_def SP_def numeral_eq_Suc)

lemma getKube_raw2_lines:
  \<open>getKube_raw2 = lit ''"'' @ LF # (replicate 16 SP @ lit ''- name: REACT_APP_LOCK_TO_DEFAULT_INSTANCE'') @
     LF # replicate 18 SP @ lit ''value: "''\<close>
  unfolding spaces_replicate [symmetric] by (simp add: getKube_raw2_def lit_def)

lemma getKube_raw3_lines:
  \<open>getKube_raw3 = lit ''"'' @ LF # replicate 16 SP\<close>
  unfolding spaces_replicate [symmetric] by (simp add: getKube_raw3_def lit_def)

lemma getKube_raw4_lines: "getKube_raw4 = LF # tl getKube_raw4"
  by (simp add: getKube_raw4_def)

lemma sublist_trim_two_lines:
  assumes "K \<noteq> []" "\<not> is_white_space (hd K)" "V \<noteq> []" "\<not> is_white_space (last V)"
    and "\<exists>k\<le>j. sublist (K @ LF # replicate k SP @ V) s"
  shows "\<exists>k\<le>j. sublist (K @ LF # replicate k SP @ V) (trim s)"
proof -
  from assms(5) obtain k where k: "k \<le> j" "sublist (K @ LF # replicate k SP @ V) s" by blast
  have "sublist (K @ LF # replicate k SP @ V) (trim s)"
    using assms(1-4) k(2) by (intro sublist_trim) simp_all
  with k(1) show ?thesis by blast
qed

lemma lock_value_facts:
  \<open>lit ''value: "'' @ number_string (lockVal b) @ lit ''"'' \<noteq> []\<close>
  \<open>\<not> is_white_space (hd (lit ''value: "'' @ number_string (lockVal b) @ lit ''"''))\<close>
  \<open>\<not> is_white_space (last (lit ''value: "'' @ number_string (lockVal b) @ lit ''"''))\<close>
  \<open>LF \<notin> set (lit ''value: "'' @ number_string (lockVal b) @ lit ''"'')\<close>
  \<open>92 \<notin> set (lit ''value: "'' @ number_string (lockVal b) @ lit ''"'')\<close>
  by (simp_all add: number_string_lockVal lit_def is_white_space_def LF_def)

lemma lock_name_facts:
  \<open>lit ''- name: REACT_APP_LOCK_TO_DEFAULT_INSTANCE'' \<noteq> []\<close>
  \<open>\<not> is_white_space (hd (lit ''- name: REACT_APP_LOCK_TO_DEFAULT_INSTANCE''))\<close>
  \<open>LF \<notin> set (lit ''- name: REACT_APP_LOCK_TO_DEFAULT_INSTANCE'')\<close>
  \<open>92 \<notin> set (lit ''- name: REACT_APP_LOCK_TO_DEFAULT_INSTANCE'')\<close>
  \<open>hd (lit ''- name: REACT_APP_LOCK_TO_DEFAULT_INSTANCE'') \<noteq> 110\<close>
  by (simp_all add: lit_def is_white_space_def LF_def)

lemma getKube_lock:
  \<open>\<exists>k\<le>18. sublist (lit ''- name: REACT_APP_LOCK_TO_DEFAULT_INSTANCE'' @ LF # replicate k SP @
      lit ''value: "'' @ number_string (lockVal (REACT_APP_LOCK_TO_DEFAULT_INSTANCE cfg)) @ lit ''"'')
     (getKube cfg)\<close>
proof -
  let ?v2 = "number_string (lockVal (REACT_APP_LOCK_TO_DEFAULT_INSTANCE cfg))"
  let ?K = "lit ''- name: REACT_APP_LOCK_TO_DEFAULT_INSTANCE''"
  let ?V = \<open>lit ''value: "'' @ ?v2 @ lit ''"''\<close>
  note K = lock_name_facts
  note V = lock_value_facts [of "REACT_APP_LOCK_TO_DEFAULT_INSTANCE cfg"]
  have shape: "interpolate [getKube_raw0, getKube_raw1, getKube_raw2, getKube_raw3, getKube_raw4]
        [trim (REACT_APP_NAME cfg), instances (REACT_APP_DEFAULT_INSTANCE cfg), ?v2,
         getKube_maybeMode cfg] =
      (getKube_raw0 @ trim (REACT_APP_NAME cfg) @ getKube_raw1 @
         instances (REACT_APP_DEFAULT_INSTANCE cfg) @ [34]) @
      LF # (replicate 16 SP @ ?K) @ LF # (replicate 18 SP @ ?V) @
      LF # (replicate 16 SP @ getKube_maybeMode cfg @ getKube_raw4)"
    unfolding getKube_interpolate
    by (simp add: getKube_raw2_lines getKube_raw3_lines lit_def)
  from dedent_two_lines [OF shape K V]
  have "\<exists>k\<le>18. sublist (?K @ LF # replicate k SP @ ?V)
      (dedent [getKube_raw0, getKube_raw1, getKube_raw2, getKube_raw3, getKube_raw4]
        [trim (REACT_APP_NAME cfg), instances (REACT_APP_DEFAULT_INSTANCE cfg), ?v2,
         getKube_maybeMode cfg])" .
  from sublist_trim_two_lines [OF K(1,2) V(1,3) this]
  show ?thesis unfolding getKube_def .
qed


lemma mode_entry_plain:
  \<open>plain_pattern (lit ''-e REACT_APP_INSTANCE_SELECTION_MODE="'' @ mode_value m @ lit ''"'')\<close>
  \<open>plain_pattern (lit ''ENV REACT_APP_INSTANCE_SELECTION_MODE="'' @ mode_value m @ lit ''"'')\<close>
  \<open>plain_pattern (lit ''REACT_APP_INSTANCE_SELECTION_MODE: "'' @ mode_value m @ lit ''"'')\<close>
  by (cases m; simp add: plain_pattern_def lit_def is_white_space_def)+

lemma getDockerCommand_mode_entry:
  assumes "hasMultipleInstances cfg"
  shows \<open>sublist (lit ''-e REACT_APP_INSTANCE_SELECTION_MODE="'' @
      mode_value (REACT_APP_INSTANCE_SELECTION_MODE cfg) @ lit ''"'') (getDockerCommand cfg)\<close>
proof -
  have \<open>prefix (lit ''-e REACT_APP_INSTANCE_SELECTION_MODE="'' @
      mode_value (REACT_APP_INSTANCE_SELECTION_MODE cfg) @ lit ''"'') (getDockerCommand_mode cfg)\<close>
    using assms by (simp add: getDockerCommand_mode_def lit_def)
  then show ?thesis
    unfolding getDockerCommand_def
    by (intro sublist_dedent mode_entry_plain)
      (simp only: getDockerCommand_interpolate sublist_template_value3)
qed

lemma getDockerfile_mode_entry:
  assumes "hasMultipleInstances cfg"
  shows \<open>sublist (lit ''ENV REACT_APP_INSTANCE_SELECTION_MODE="'' @
      mode_value (REACT_APP_INSTANCE_SELECTION_MODE cfg) @ lit ''"'') (getDockerfile cfg)\<close>
proof -
  have \<open>prefix (lit ''ENV REACT_APP_INSTANCE_SELECTION_MODE="'' @
      mode_value (REACT_APP_INSTANCE_SELECTION_MODE cfg) @ lit ''"'') (getDockerfile_mode cfg)\<close>
    using assms by (simp add: getDockerfile_mode_def lit_def)
  then show ?thesis
    unfolding getDockerfile_def
    by (intro plain_pattern_trim sublist_dedent mode_entry_plain)
      (simp only: getDockerfile_interpolate sublist_template_value3)
qed

lemma sublist_template_inside3:
  assumes "sublist P v3"
  shows "sublist P (r0 @ v0 @ r1 @ v1 @ r2 @ v2 @ r3 @ v3 @ r4)"
proof -
  from assms obtain A B where "v3 = A @ P @ B" by (auto simp: sublist_def)
  then have "r0 @ v0 @ r1 @ v1 @ r2 @ v2 @ r3 @ v3 @ r4 =
      (r0 @ v0 @ r1 @ v1 @ r2 @ v2 @ r3 @ A) @ P @ (B @ r4)" by simp
  then show ?thesis by (metis sublist_appendI)
qed

lemma getCompose_mode_entry:
  assumes "hasMultipleInstances cfg"
  shows \<open>sublist (lit ''REACT_APP_INSTANCE_SELECTION_MODE: "'' @
      mode_value (REACT_APP_INSTANCE_SELECTION_MODE cfg) @ lit ''"'') (getCompose cfg)\<close>
proof -
  have \<open>getCompose_maybeMode cfg = ([LF] @ lit ''      '') @
      (lit ''REACT_APP_INSTANCE_SELECTION_MODE: "'' @
       mode_value (REACT_APP_INSTANCE_SELECTION_MODE cfg) @ lit ''"'') @ []\<close>
    using assms by (simp add: getCompose_maybeMode_def lit_def)
  then have \<open>sublist (lit ''REACT_APP_INSTANCE_SELECTION_MODE: "'' @
      mode_value (REACT_APP_INSTANCE_SELECTION_MODE cfg) @ lit ''"'') (getCompose_maybeMode cfg)\<close>
    by (metis sublist_appendI)
  then show ?thesis
    unfolding getCompose_def
    by (intro plain_pattern_trim sublist_dedent mode_entry_plain)
      (simp only: getCompose_interpolate sublist_template_inside3)
qed

lemma mode_value_facts:
  \<open>lit ''value: "'' @ mode_value m @ lit ''"'' \<noteq> []\<close>
  \<open>\<not> is_white_space (hd (lit ''value: "'' @ mode_value m @ lit ''"''))\<close>
  \<open>\<not> is_white_space (last (lit ''value: "'' @ mode_value m @ lit ''"''))\<close>
  \<open>LF \<notin> set (lit ''value: "'' @ mode_value m @ lit ''"'')\<close>
  \<open>92 \<notin> set (lit ''value: "'' @ mode_value m @ lit ''"'')\<close>
  by (cases m; simp add: lit_def is_white_space_def LF_def)+

lemma mode_name_facts:
  \<open>lit ''- name: REACT_APP_INSTANCE_SELECTION_MODE'' \<noteq> []\<close>
  \<open>\<not> is_white_space (hd (lit ''- name: REACT_APP_INSTANCE_SELECTION_MODE''))\<close>
  \<open>LF \<notin> set (lit ''- name: REACT_APP_INSTANCE_SELECTION_MODE'')\<close>
  \<open>92 \<notin> set (lit ''- name: REACT_APP_INSTANCE_SELECTION_MODE'')\<close>
  \<open>hd (lit ''- name: REACT_APP_INSTANCE_SELECTION_MODE'') \<noteq> 110\<close>
  by (simp_all add: lit_def is_white_space_def LF_def)

lemma getKube_mode_entry:
  assumes "hasMultipleInstances cfg"
  shows \<open>\<exists>k\<le>2. sublist (lit ''- name: REACT_APP_INSTANCE_SELECTION_MODE'' @ LF # replicate k SP @
      lit ''value: "'' @ mode_value (REACT_APP_INSTANCE_SELECTION_MODE cfg) @ lit ''"'')
     (getKube cfg)\<close>
proof -
  let ?m = "REACT_APP_INSTANCE_SELECTION_MODE cfg"
  let ?v0 = "trim (REACT_APP_NAME cfg)" and ?v1 = "instances (REACT_APP_DEFAULT_INSTANCE cfg)"
  let ?v2 = "number_string (lockVal (REACT_APP_LOCK_TO_DEFAULT_INSTANCE cfg))"
  let ?K = "lit ''- name: REACT_APP_INSTANCE_SELECTION_MODE''"
  let ?V = \<open>lit ''value: "'' @ mode_value ?m @ lit ''"''\<close>
  note K = mode_name_facts
  note V = mode_value_facts [of ?m]
  have v3: "getKube_maybeMode cfg = ?K @ LF # replicate 2 SP @ ?V"
    using assms unfolding spaces_replicate [symmetric] by (simp add: getKube_maybeMode_eq lit_def)
  obtain r4 where r4: "getKube_raw4 = LF # r4"
    using getKube_raw4_lines by blast
  have "interpolate [getKube_raw0, getKube_raw1, getKube_raw2, getKube_raw3, getKube_raw4]
        [?v0, ?v1, ?v2, getKube_maybeMode cfg] =
      getKube_raw0 @ ?v0 @ getKube_raw1 @ ?v1 @ getKube_raw2 @ ?v2 @ getKube_raw3 @
      getKube_maybeMode cfg @ getKube_raw4"
    by (rule getKube_interpolate)
  also have "\<dots> = (getKube_raw0 @ ?v0 @ getKube_raw1 @ ?v1 @ getKube_raw2 @ ?v2 @ [34]) @
      LF # (replicate 16 SP @ ?K) @ LF # (replicate 2 SP @ ?V) @ LF # r4"
    by (simp add: v3 r4 getKube_raw3_lines lit_def)
  finally have shape:
    "interpolate [getKube_raw0, getKube_raw1, getKube_raw2, getKube_raw3, getKube_raw4]
        [?v0, ?v1, ?v2, getKube_maybeMode cfg] =
      (getKube_raw0 @ ?v0 @ getKube_raw1 @ ?v1 @ getKube_raw2 @ ?v2 @ [34]) @
      LF # (replicate 16 SP @ ?K) @ LF # (replicate 2 SP @ ?V) @ LF # r4" .
  from dedent_two_lines [OF shape K V]
  have "\<exists>k\<le>2. sublist (?K @ LF # replicate k SP @ ?V)
      (dedent [getKube_raw0, getKube_raw1, getKube_raw2, getKube_raw3, getKube_raw4]
        [?v0, ?v1, ?v2, getKube_maybeMode cfg])" .
  from sublist_trim_two_lines [OF K(1,2) V(1,3) this]
  show ?thesis unfolding getKube_def .
qed

lemma length_split_on: "length (split_on c s) = Suc (length (filter (\<lambda>x. x = c) s))"
proof (induction s)
  case Nil then show ?case by simp
next
  case (Cons a s)
  obtain seg segs where "split_on c s = seg # segs"
    using split_on_not_Nil by (cases "split_on c s") auto
  with Cons show ?case by auto
qed

lemma split_on_multiple: "c \<in> set s \<Longrightarrow> 1 < length (split_on c s)"
  by (simp add: length_split_on filter_empty_conv)

section \<open>The share link\<close>

lemmas params_eval = params_toString_def urlencode_def urlencode_scalar_def urlencode_byte_def
  is_urlencoded_safe_def utf8_encode_def percent_encode_byte_def hex_digit_def
  is_ascii_alphanumeric_def is_ascii_alpha_def is_ascii_digit_def is_ascii_upper_alpha_def
  is_lead_surrogate_def is_trail_surrogate_def

lemma urlencode_keys:
  "urlencode (lit ''REACT_APP_NAME'') = lit ''REACT_APP_NAME''"
  "urlencode (lit ''REACT_APP_DEFAULT_INSTANCE'') = lit ''REACT_APP_DEFAULT_INSTANCE''"
  "urlencode (lit ''REACT_APP_LOCK_TO_DEFAULT_INSTANCE'') = lit ''REACT_APP_LOCK_TO_DEFAULT_INSTANCE''"
  "urlencode (lit ''REACT_APP_INSTANCE_SELECTION_MODE'') = lit ''REACT_APP_INSTANCE_SELECTION_MODE''"
  "urlencode (lit ''1'') = lit ''1''" "urlencode (lit ''0'') = lit ''0''"
  by (simp_all add: params_eval lit_def)

lemma urlencode_mode_value: "urlencode (mode_value m) = mode_value m"
  by (cases m) (simp_all add: params_eval lit_def)

lemma demoParams_set:
  "params_set (lit ''REACT_APP_INSTANCE_SELECTION_MODE'') v4
          (params_set (lit ''REACT_APP_LOCK_TO_DEFAULT_INSTANCE'') v3
             (params_set (lit ''REACT_APP_DEFAULT_INSTANCE'') v2
                (params_set (lit ''REACT_APP_NAME'') v1 []))) =
   [(lit ''REACT_APP_NAME'', v1), (lit ''REACT_APP_DEFAULT_INSTANCE'', v2),
    (lit ''REACT_APP_LOCK_TO_DEFAULT_INSTANCE'', v3), (lit ''REACT_APP_INSTANCE_SELECTION_MODE'', v4)]"
  by (simp add: lit_def)

lemma demoParams_eq:
  "demoParams st =
     lit ''REACT_APP_NAME='' @ urlencode (name st) @
     lit ''&REACT_APP_DEFAULT_INSTANCE='' @ urlencode (defaultInstance st) @
     lit ''&REACT_APP_LOCK_TO_DEFAULT_INSTANCE='' @
       (if lockToDefaultInstance st then lit ''1'' else lit ''0'') @
     lit ''&REACT_APP_INSTANCE_SELECTION_MODE='' @ mode_value (instanceSelectionMode st)"
  unfolding demoParams_def demoParams_set params_toString_def
  by (simp add: urlencode_keys urlencode_mode_value) (simp add: lit_def)

lemma utf8_encode_bytes: "list_all (\<lambda>b. b < 256) (utf8_encode cp)"
  by (simp add: utf8_encode_def) linarith


lemma hex_digit_safe: "n < 16 \<Longrightarrow> is_urlencoded_safe (hex_digit n)"
  by (simp add: hex_digit_def is_urlencoded_safe_def is_ascii_alphanumeric_def is_ascii_alpha_def
      is_ascii_digit_def is_ascii_upper_alpha_def)

lemma urlencode_byte_units:
  assumes "b < 256"
  shows "list_all (\<lambda>c. is_urlencoded_safe c \<or> c = 37 \<or> c = 43) (urlencode_byte b)"
proof -
  from assms have "b div 16 < 16" "b mod 16 < 16" by simp_all
  then show ?thesis
    by (simp add: urlencode_byte_def percent_encode_byte_def hex_digit_safe)
qed

lemma urlencode_scalar_units:
  "list_all (\<lambda>c. is_urlencoded_safe c \<or> c = 37 \<or> c = 43) (urlencode_scalar cp)"
proof -
  have "is_urlencoded_safe c \<or> c = 37 \<or> c = 43"
    if "b \<in> set (utf8_encode cp)" "c \<in> set (urlencode_byte b)" for b c
  proof -
    from that(1) utf8_encode_bytes [of cp] have "b < 256" by (simp add: list_all_iff)
    from urlencode_byte_units [OF this] that(2) show ?thesis by (simp add: list_all_iff)
  qed
  then show ?thesis
    by (auto simp: urlencode_scalar_def list_all_iff)
qed

lemma urlencode_units:
  "list_all (\<lambda>c. is_urlencoded_safe c \<or> c = 37 \<or> c = 43) (urlencode s)"
  using urlencode_scalar_units by (auto simp: urlencode_def list_all_iff)

section \<open>The selection-mode entry\<close>

lemma occurrences_zero_iff: "P \<noteq> [] \<Longrightarrow> occurrences P s = 0 \<longleftrightarrow> \<not> sublist P s"
  using occurrences_pos_iff [of P s] by auto

lemma App_config_simps:
  "REACT_APP_NAME (App_config st) = name st"
  "REACT_APP_DEFAULT_INSTANCE (App_config st) = defaultInstance st"
  "REACT_APP_LOCK_TO_DEFAULT_INSTANCE (App_config st) = lockToDefaultInstance st"
  "REACT_APP_INSTANCE_SELECTION_MODE (App_config st) = instanceSelectionMode st"
  "hasMultipleInstances (App_config st) \<longleftrightarrow> 1 < length (split_on comma (defaultInstance st))"
  by (simp_all add: App_config_def App_hasMultipleInstances_def)

text \<open>
  Claim C2, as amended. A renderer copies the name and the endpoints into its text, so
  the token occurs there as often as in them, and once more when the flag is set. For
  settings whose name and raw endpoints string contain neither the token nor a
  backslash: with exactly one endpoint no renderer's text contains it, with two or more
  endpoints each renderer's text contains it exactly once. Without a backslash in the
  name and the endpoints, nothing depends on what the last step of the tag does to an
  escape sequence in an interpolated value.
\<close>

theorem selection_mode_token_emission:
  assumes "\<not> sublist selection_mode_token (name st)"
    and "\<not> sublist selection_mode_token (defaultInstance st)"
    and "92 \<notin> set (name st)"
    and "92 \<notin> set (defaultInstance st)"
  shows "occurrences selection_mode_token (getDockerCommand (App_config st)) =
           (if 1 < length (split_on comma (defaultInstance st)) then 1 else 0) \<and>
         occurrences selection_mode_token (getDockerfile (App_config st)) =
           (if 1 < length (split_on comma (defaultInstance st)) then 1 else 0) \<and>
         occurrences selection_mode_token (getCompose (App_config st)) =
           (if 1 < length (split_on comma (defaultInstance st)) then 1 else 0) \<and>
         occurrences selection_mode_token (getKube (App_config st)) =
           (if 1 < length (split_on comma (defaultInstance st)) then 1 else 0)"
proof -
  from assms(1,2) have "occurrences selection_mode_token (name st) = 0"
    "occurrences selection_mode_token (defaultInstance st) = 0"
    by (simp_all add: occurrences_zero_iff token_facts(1))
  then show ?thesis
    by (simp add: getDockerCommand_token getDockerfile_token getCompose_token getKube_token
        App_config_simps)
qed

lemma token_absent:
  "\<not> sublist selection_mode_token (lit ''Acme'')"
  "\<not> sublist selection_mode_token (lit ''Blorp'')"
  "\<not> sublist selection_mode_token (lit ''https://a.com,https://b.com'')"
  "\<not> sublist selection_mode_token (lit ''https://lemmy.world'')"
  using occurrences_zero_iff [OF token_facts(1), of "lit ''Acme''"]
    occurrences_zero_iff [OF token_facts(1), of "lit ''Blorp''"]
    occurrences_zero_iff [OF token_facts(1), of "lit ''https://a.com,https://b.com''"]
    occurrences_zero_iff [OF token_facts(1), of "lit ''https://lemmy.world''"]
  by (simp_all add: selection_mode_token_def lit_def)

theorem selection_mode_token_emission_witness:
  "occurrences selection_mode_token (getDockerCommand (App_config initial_store)) = 0 \<and>
   occurrences selection_mode_token (getDockerfile (App_config initial_store)) = 0 \<and>
   occurrences selection_mode_token (getCompose (App_config initial_store)) = 0 \<and>
   occurrences selection_mode_token (getKube (App_config initial_store)) = 0 \<and>
   occurrences selection_mode_token (getDockerCommand (App_config acme_store)) = 1 \<and>
   occurrences selection_mode_token (getDockerfile (App_config acme_store)) = 1 \<and>
   occurrences selection_mode_token (getCompose (App_config acme_store)) = 1 \<and>
   occurrences selection_mode_token (getKube (App_config acme_store)) = 1"
proof -
  have one: "length (split_on comma (defaultInstance initial_store)) = 1"
    by (simp add: initial_store_def lit_def comma_def)
  have two: "length (split_on comma (defaultInstance acme_store)) = 2"
    by (simp add: acme_store_def lit_def comma_def)
  have a: "\<not> sublist selection_mode_token (name initial_store)"
    "\<not> sublist selection_mode_token (defaultInstance initial_store)"
    "\<not> sublist selection_mode_token (name acme_store)"
    "\<not> sublist selection_mode_token (defaultInstance acme_store)"
    by (simp_all add: initial_store_def acme_store_def token_absent)
  have b: "92 \<notin> set (name initial_store)"
    "92 \<notin> set (defaultInstance initial_store)"
    "92 \<notin> set (name acme_store)"
    "92 \<notin> set (defaultInstance acme_store)"
    by (simp_all add: initial_store_def acme_store_def lit_def)
  from selection_mode_token_emission [OF a(1,2) b(1,2)]
    selection_mode_token_emission [OF a(3,4) b(3,4)] one two
  show ?thesis by simp
qed

text \<open>
  Claim C2 as stated fails for a name that contains the token: with one endpoint, the
  command still contains it once.
\<close>

theorem selection_mode_token_counterexample:
  "length (split_on comma (defaultInstance (initial_store\<lparr>name := selection_mode_token\<rparr>))) = 1 \<and>
   occurrences selection_mode_token
     (getDockerCommand (App_config (initial_store\<lparr>name := selection_mode_token\<rparr>))) = 1"
proof -
  have "occurrences selection_mode_token selection_mode_token = 1"
    by (simp add: selection_mode_token_def lit_def)
  moreover have "occurrences selection_mode_token (lit ''https://lemmy.world'') = 0"
    by (simp add: selection_mode_token_def lit_def)
  moreover have "length (split_on comma (lit ''https://lemmy.world'')) = 1"
    by (simp add: lit_def comma_def)
  ultimately show ?thesis
    by (simp add: getDockerCommand_token App_config_simps initial_store_def)
qed

text \<open>
  Claim C3. The query string of the share link has the four keys in the fixed order,
  each with its value in the \<open>application/x-www-form-urlencoded\<close> encoding (made of
  ASCII alphanumerics, \<open>*\<close>, \<open>-\<close>, \<open>.\<close>, \<open>_\<close>, \<open>+\<close> and \<open>%\<close> only), and the
  selection-mode key is there whatever the number of endpoints; the string is a
  function of the settings.
\<close>

theorem demoParams_query_string:
  "demoParams st =
     lit ''REACT_APP_NAME='' @ urlencode (name st) @
     lit ''&REACT_APP_DEFAULT_INSTANCE='' @ urlencode (defaultInstance st) @
     lit ''&REACT_APP_LOCK_TO_DEFAULT_INSTANCE='' @
       (if lockToDefaultInstance st then lit ''1'' else lit ''0'') @
     lit ''&REACT_APP_INSTANCE_SELECTION_MODE='' @ mode_value (instanceSelectionMode st) \<and>
   sublist selection_mode_token (demoParams st) \<and>
   list_all (\<lambda>c. is_urlencoded_safe c \<or> c = 37 \<or> c = 43) (urlencode (name st)) \<and>
   list_all (\<lambda>c. is_urlencoded_safe c \<or> c = 37 \<or> c = 43) (urlencode (defaultInstance st))"
proof -
  have "demoParams st =
     (lit ''REACT_APP_NAME='' @ urlencode (name st) @
      lit ''&REACT_APP_DEFAULT_INSTANCE='' @ urlencode (defaultInstance st) @
      lit ''&REACT_APP_LOCK_TO_DEFAULT_INSTANCE='' @
       (if lockToDefaultInstance st then lit ''1'' else lit ''0'') @ lit ''&'') @
     selection_mode_token @ (lit ''='' @ mode_value (instanceSelectionMode st))"
    by (simp add: demoParams_eq selection_mode_token_def lit_def)
  then have "sublist selection_mode_token (demoParams st)"
    by (metis sublist_appendI)
  with demoParams_eq [of st] urlencode_units show ?thesis by simp
qed

text \<open>
  Claim C7. Every renderer writes the lock flag as the string \<open>"1"\<close> or \<open>"0"\<close>: the number
  1 or 0 that the template turns into one decimal digit, between the quotes that follow
  the name of the variable.
\<close>

theorem lock_flag_rendered_as_digit:
  \<open>number_string (lockVal (REACT_APP_LOCK_TO_DEFAULT_INSTANCE cfg)) =
     (if REACT_APP_LOCK_TO_DEFAULT_INSTANCE cfg then lit ''1'' else lit ''0'') \<and>
   sublist (lit ''-e REACT_APP_LOCK_TO_DEFAULT_INSTANCE="'' @
       (if REACT_APP_LOCK_TO_DEFAULT_INSTANCE cfg then lit ''1'' else lit ''0'') @ lit ''"'')
     (getDockerCommand cfg) \<and>
   sublist (lit ''ENV REACT_APP_LOCK_TO_DEFAULT_INSTANCE="'' @
       (if REACT_APP_LOCK_TO_DEFAULT_INSTANCE cfg then lit ''1'' else lit ''0'') @ lit ''"'')
     (getDockerfile cfg) \<and>
   sublist (lit ''REACT_APP_LOCK_TO_DEFAULT_INSTANCE: "'' @
       (if REACT_APP_LOCK_TO_DEFAULT_INSTANCE cfg then lit ''1'' else lit ''0'') @ lit ''"'')
     (getCompose cfg) \<and>
   (\<exists>k\<le>18. sublist (lit ''- name: REACT_APP_LOCK_TO_DEFAULT_INSTANCE'' @ LF # replicate k SP @
       lit ''value: "'' @ (if REACT_APP_LOCK_TO_DEFAULT_INSTANCE cfg then lit ''1'' else lit ''0'') @
       lit ''"'')
     (getKube cfg))\<close>
  using getDockerCommand_lock [of cfg] getDockerfile_lock [of cfg] getCompose_lock [of cfg]
    getKube_lock [of cfg]
  by (simp only: number_string_lockVal)

text \<open>
  Claim C9. The flag is the number of segments of the raw string being more than one,
  empty segments counted: a raw string with a comma has the flag set, whatever its
  segments are, and then every renderer writes the selection-mode entry.
\<close>

theorem comma_emits_selection_mode:
  assumes "comma \<in> set (defaultInstance st)"
  shows \<open>hasMultipleInstances (App_config st) \<and>
    sublist (lit ''-e REACT_APP_INSTANCE_SELECTION_MODE="'' @
        mode_value (instanceSelectionMode st) @ lit ''"'')
      (getDockerCommand (App_config st)) \<and>
    sublist (lit ''ENV REACT_APP_INSTANCE_SELECTION_MODE="'' @
        mode_value (instanceSelectionMode st) @ lit ''"'')
      (getDockerfile (App_config st)) \<and>
    sublist (lit ''REACT_APP_INSTANCE_SELECTION_MODE: "'' @
        mode_value (instanceSelectionMode st) @ lit ''"'')
      (getCompose (App_config st)) \<and>
    (\<exists>k\<le>2. sublist (lit ''- name: REACT_APP_INSTANCE_SELECTION_MODE'' @ LF # replicate k SP @
        lit ''value: "'' @ mode_value (instanceSelectionMode st) @ lit ''"'')
      (getKube (App_config st)))\<close>
proof -
  from assms have multi: "hasMultipleInstances (App_config st)"
    using split_on_multiple [of comma "defaultInstance st"] by (simp add: App_config_simps)
  from multi getDockerCommand_mode_entry [OF multi] getDockerfile_mode_entry [OF multi]
    getCompose_mode_entry [OF multi] getKube_mode_entry [OF multi]
  show ?thesis by (simp only: App_config_simps(4))
qed

theorem comma_emits_selection_mode_witness:
  \<open>comma \<in> set (lit ''https://a.com,'') \<and>
   filter (\<lambda>seg. seg \<noteq> []) (map trim (split_on comma (lit ''https://a.com,''))) =
     [lit ''https://a.com''] \<and>
   hasMultipleInstances (App_config (initial_store\<lparr>defaultInstance := lit ''https://a.com,''\<rparr>)) \<and>
   sublist (lit ''-e REACT_APP_INSTANCE_SELECTION_MODE="default_first"'')
     (getDockerCommand (App_config (initial_store\<lparr>defaultInstance := lit ''https://a.com,''\<rparr>))) \<and>
   sublist (lit ''ENV REACT_APP_INSTANCE_SELECTION_MODE="default_first"'')
     (getDockerfile (App_config (initial_store\<lparr>defaultInstance := lit ''https://a.com,''\<rparr>))) \<and>
   sublist (lit ''REACT_APP_INSTANCE_SELECTION_MODE: "default_first"'')
     (getCompose (App_config (initial_store\<lparr>defaultInstance := lit ''https://a.com,''\<rparr>))) \<and>
   (\<exists>k\<le>2. sublist (lit ''- name: REACT_APP_INSTANCE_SELECTION_MODE'' @ LF # replicate k SP @
       lit ''value: "default_first"'')
     (getKube (App_config (initial_store\<lparr>defaultInstance := lit ''https://a.com,''\<rparr>))))\<close>
proof -
  let ?st = "initial_store\<lparr>defaultInstance := lit ''https://a.com,''\<rparr>"
  have a: "comma \<in> set (defaultInstance ?st)"
    by (simp add: lit_def comma_def)
  have b: "filter (\<lambda>seg. seg \<noteq> []) (map trim (split_on comma (lit ''https://a.com,''))) =
     [lit ''https://a.com'']"
    by (simp add: lit_def comma_def trim_def trimStart_def trimEnd_def is_white_space_def)
  have c: "instanceSelectionMode ?st = DEFAULT_FIRST"
    by (simp add: initial_store_def)
  from comma_emits_selection_mode [OF a] a b show ?thesis
    unfolding c by (simp add: lit_def)
qed

section \<open>The share link and the renderers\<close>

lemma suffix_join_with:
  "ls \<noteq> [] \<Longrightarrow> suffix K (last ls) \<Longrightarrow> suffix K (join_with c ls)"
proof (induction c ls rule: join_with.induct)
  case (3 sep x y ys)
  then have "suffix K (join_with sep (y # ys))" by simp
  then show ?case by (auto simp: suffix_def)
qed simp_all

lemma prefix_join_with:
  "prefix Q l \<Longrightarrow> prefix Q (join_with c (l # ls))"
  by (cases ls) (auto simp: prefix_def)

lemma sublist_template_value0:
  assumes "suffix K r0" "prefix Q r1"
  shows "sublist (K @ v0 @ Q) (r0 @ v0 @ r1 @ rest)"
proof -
  from assms obtain A B where "r0 = A @ K" "r1 = Q @ B" by (auto simp: suffix_def prefix_def)
  then have "r0 @ v0 @ r1 @ rest = A @ (K @ v0 @ Q) @ (B @ rest)" by simp
  then show ?thesis by (metis sublist_appendI)
qed

lemma sublist_template_value1:
  assumes "suffix K r1" "prefix Q r2"
  shows "sublist (K @ v1 @ Q) (r0 @ v0 @ r1 @ v1 @ r2 @ rest)"
proof -
  from assms obtain A B where "r1 = A @ K" "r2 = Q @ B" by (auto simp: suffix_def prefix_def)
  then have "r0 @ v0 @ r1 @ v1 @ r2 @ rest = (r0 @ v0 @ A) @ (K @ v1 @ Q) @ (B @ rest)" by simp
  then show ?thesis by (metis sublist_appendI)
qed

lemma name_entry_suffix:
  \<open>suffix (lit ''REACT_APP_NAME="'') getDockerCommand_raw0\<close>
  \<open>suffix (lit ''REACT_APP_NAME="'') getDockerfile_raw0\<close>
  \<open>suffix (lit ''REACT_APP_NAME: "'') getCompose_raw0\<close>
  \<open>suffix (lit ''value: "'') getKube_raw0\<close>
  unfolding getDockerCommand_raw0_def getDockerfile_raw0_def getCompose_raw0_def getKube_raw0_def
  by (rule suffix_join_with; simp add: suffix_to_prefix lit_def)+

lemma instances_entry_suffix:
  \<open>suffix (lit ''REACT_APP_DEFAULT_INSTANCE="'') getDockerCommand_raw1\<close>
  \<open>suffix (lit ''REACT_APP_DEFAULT_INSTANCE="'') getDockerfile_raw1\<close>
  \<open>suffix (lit ''REACT_APP_DEFAULT_INSTANCE: "'') getCompose_raw1\<close>
  \<open>suffix (lit ''value: "'') getKube_raw1\<close>
  unfolding getDockerCommand_raw1_def getDockerfile_raw1_def getCompose_raw1_def getKube_raw1_def
  by (rule suffix_join_with; simp add: suffix_to_prefix lit_def)+

lemma closing_quote_prefix:
  \<open>prefix (lit ''"'') getDockerCommand_raw1\<close> \<open>prefix (lit ''"'') getDockerCommand_raw2\<close>
  \<open>prefix (lit ''"'') getDockerfile_raw1\<close> \<open>prefix (lit ''"'') getDockerfile_raw2\<close>
  \<open>prefix (lit ''"'') getCompose_raw1\<close> \<open>prefix (lit ''"'') getCompose_raw2\<close>
  \<open>prefix (lit ''"'') getKube_raw1\<close> \<open>prefix (lit ''"'') getKube_raw2\<close>
  unfolding getDockerCommand_raws getDockerfile_raws getCompose_raws getKube_raws
  by (rule prefix_join_with; simp add: lit_def)+

lemma spaced_values:
  "trim (name spaced_store) = lit ''Blorp''"
  "instances (defaultInstance spaced_store) = lit ''https://a.com,https://b.com''"
  "trim (name trimmed_store) = lit ''Blorp''"
  "instances (defaultInstance trimmed_store) = lit ''https://a.com,https://b.com''"
  by (simp_all add: spaced_store_def trimmed_store_def instances_def trim_def trimStart_def
      trimEnd_def is_white_space_def comma_def lit_def)

lemma spaced_config:
  "REACT_APP_LOCK_TO_DEFAULT_INSTANCE (App_config spaced_store) =
     REACT_APP_LOCK_TO_DEFAULT_INSTANCE (App_config trimmed_store)"
  "REACT_APP_INSTANCE_SELECTION_MODE (App_config spaced_store) =
     REACT_APP_INSTANCE_SELECTION_MODE (App_config trimmed_store)"
  "hasMultipleInstances (App_config spaced_store) = hasMultipleInstances (App_config trimmed_store)"
  by (simp_all add: App_config_simps spaced_store_def trimmed_store_def comma_def lit_def)

lemma spaced_renderers:
  "getDockerCommand (App_config spaced_store) = getDockerCommand (App_config trimmed_store)"
  "getDockerfile (App_config spaced_store) = getDockerfile (App_config trimmed_store)"
  "getCompose (App_config spaced_store) = getCompose (App_config trimmed_store)"
  "getKube (App_config spaced_store) = getKube (App_config trimmed_store)"
  by (simp_all only: getDockerCommand_def getDockerfile_def getCompose_def getKube_def
      getDockerCommand_mode_def getDockerfile_mode_def getCompose_maybeMode_def
      getKube_maybeMode_def spaced_config App_config_simps(1,2) spaced_values)


lemma name_entry:
  assumes "suffix K r0" "prefix Q r1" "plain_pattern (K @ v0 @ Q)"
    and "interpolate raw vals = r0 @ v0 @ r1 @ rest"
  shows "sublist (K @ v0 @ Q) (dedent raw vals)"
  using assms(3) by (rule sublist_dedent) (simp only: assms(4) sublist_template_value0 [OF assms(1,2)])

lemma instances_entry:
  assumes "suffix K r1" "prefix Q r2" "plain_pattern (K @ v1 @ Q)"
    and "interpolate raw vals = r0 @ v0 @ r1 @ v1 @ r2 @ rest"
  shows "sublist (K @ v1 @ Q) (dedent raw vals)"
  using assms(3) by (rule sublist_dedent) (simp only: assms(4) sublist_template_value1 [OF assms(1,2)])

lemma spaced_plain:
  \<open>plain_pattern (lit ''REACT_APP_NAME="'' @ lit ''Blorp'' @ lit ''"'')\<close>
  \<open>plain_pattern (lit ''REACT_APP_NAME: "'' @ lit ''Blorp'' @ lit ''"'')\<close>
  \<open>plain_pattern (lit ''value: "'' @ lit ''Blorp'' @ lit ''"'')\<close>
  \<open>plain_pattern (lit ''REACT_APP_DEFAULT_INSTANCE="'' @ lit ''https://a.com,https://b.com'' @ lit ''"'')\<close>
  \<open>plain_pattern (lit ''REACT_APP_DEFAULT_INSTANCE: "'' @ lit ''https://a.com,https://b.com'' @ lit ''"'')\<close>
  \<open>plain_pattern (lit ''value: "'' @ lit ''https://a.com,https://b.com'' @ lit ''"'')\<close>
  by (simp_all add: plain_pattern_def lit_def is_white_space_def)

lemma spaced_entries:
  \<open>sublist (lit ''REACT_APP_NAME="'' @ lit ''Blorp'' @ lit ''"'')
     (getDockerCommand (App_config spaced_store))\<close>
  \<open>sublist (lit ''REACT_APP_DEFAULT_INSTANCE="'' @ lit ''https://a.com,https://b.com'' @ lit ''"'')
     (getDockerCommand (App_config spaced_store))\<close>
  \<open>sublist (lit ''REACT_APP_NAME="'' @ lit ''Blorp'' @ lit ''"'')
     (getDockerfile (App_config spaced_store))\<close>
  \<open>sublist (lit ''REACT_APP_DEFAULT_INSTANCE="'' @ lit ''https://a.com,https://b.com'' @ lit ''"'')
     (getDockerfile (App_config spaced_store))\<close>
  \<open>sublist (lit ''REACT_APP_NAME: "'' @ lit ''Blorp'' @ lit ''"'')
     (getCompose (App_config spaced_store))\<close>
  \<open>sublist (lit ''REACT_APP_DEFAULT_INSTANCE: "'' @ lit ''https://a.com,https://b.com'' @ lit ''"'')
     (getCompose (App_config spaced_store))\<close>
  \<open>sublist (lit ''value: "'' @ lit ''Blorp'' @ lit ''"'') (getKube (App_config spaced_store))\<close>
  \<open>sublist (lit ''value: "'' @ lit ''https://a.com,https://b.com'' @ lit ''"'')
     (getKube (App_config spaced_store))\<close>
  unfolding getDockerCommand_def getDockerfile_def getCompose_def getKube_def
    App_config_simps(1,2) spaced_values
  by (intro plain_pattern_trim spaced_plain
        name_entry [OF name_entry_suffix(1) closing_quote_prefix(1) spaced_plain(1)
          getDockerCommand_interpolate]
        instances_entry [OF instances_entry_suffix(1) closing_quote_prefix(2) spaced_plain(4)
          getDockerCommand_interpolate]
        name_entry [OF name_entry_suffix(2) closing_quote_prefix(3) spaced_plain(1)
          getDockerfile_interpolate]
        instances_entry [OF instances_entry_suffix(2) closing_quote_prefix(4) spaced_plain(4)
          getDockerfile_interpolate]
        name_entry [OF name_entry_suffix(3) closing_quote_prefix(5) spaced_plain(2)
          getCompose_interpolate]
        instances_entry [OF instances_entry_suffix(3) closing_quote_prefix(6) spaced_plain(5)
          getCompose_interpolate]
        name_entry [OF name_entry_suffix(4) closing_quote_prefix(7) spaced_plain(3)
          getKube_interpolate]
        instances_entry [OF instances_entry_suffix(4) closing_quote_prefix(8) spaced_plain(6)
          getKube_interpolate])+

lemma spaced_link:
  \<open>demoParams spaced_store =
     lit ''REACT_APP_NAME=+Blorp+&REACT_APP_DEFAULT_INSTANCE=https%3A%2F%2Fa.com%2C+https%3A%2F%2Fb.com'' @
     lit ''&REACT_APP_LOCK_TO_DEFAULT_INSTANCE=0&REACT_APP_INSTANCE_SELECTION_MODE=default_first''\<close>
  \<open>demoParams trimmed_store =
     lit ''REACT_APP_NAME=Blorp&REACT_APP_DEFAULT_INSTANCE=https%3A%2F%2Fa.com%2Chttps%3A%2F%2Fb.com'' @
     lit ''&REACT_APP_LOCK_TO_DEFAULT_INSTANCE=0&REACT_APP_INSTANCE_SELECTION_MODE=default_first''\<close>
  by (simp_all add: demoParams_eq spaced_store_def trimmed_store_def params_eval lit_def)

text \<open>
  Claim C10. The share link carries the name and the raw endpoints string as they are,
  percent-encoded; the renderers embed the trimmed name and the endpoints trimmed and
  joined again. For settings with white space around the name and after a comma the
  two differ: every renderer gives the text it gives for the trimmed settings, with
  \<open>Blorp\<close> and \<open>https://a.com,https://b.com\<close> between the quotes, while the link holds
  \<open>+Blorp+\<close> and \<open>https%3A%2F%2Fa.com%2C+https%3A%2F%2Fb.com\<close>.
\<close>

theorem share_link_keeps_white_space:
  \<open>demoParams st =
     lit ''REACT_APP_NAME='' @ urlencode (name st) @
     lit ''&REACT_APP_DEFAULT_INSTANCE='' @ urlencode (defaultInstance st) @
     lit ''&REACT_APP_LOCK_TO_DEFAULT_INSTANCE='' @
       (if lockToDefaultInstance st then lit ''1'' else lit ''0'') @
     lit ''&REACT_APP_INSTANCE_SELECTION_MODE='' @ mode_value (instanceSelectionMode st) \<and>
   trim (name spaced_store) = name trimmed_store \<and>
   instances (defaultInstance spaced_store) = defaultInstance trimmed_store \<and>
   getDockerCommand (App_config spaced_store) = getDockerCommand (App_config trimmed_store) \<and>
   getDockerfile (App_config spaced_store) = getDockerfile (App_config trimmed_store) \<and>
   getCompose (App_config spaced_store) = getCompose (App_config trimmed_store) \<and>
   getKube (App_config spaced_store) = getKube (App_config trimmed_store) \<and>
   sublist (lit ''REACT_APP_NAME="Blorp"'') (getDockerCommand (App_config spaced_store)) \<and>
   sublist (lit ''REACT_APP_DEFAULT_INSTANCE="https://a.com,https://b.com"'')
     (getDockerCommand (App_config spaced_store)) \<and>
   sublist (lit ''REACT_APP_NAME="Blorp"'') (getDockerfile (App_config spaced_store)) \<and>
   sublist (lit ''REACT_APP_DEFAULT_INSTANCE="https://a.com,https://b.com"'')
     (getDockerfile (App_config spaced_store)) \<and>
   sublist (lit ''REACT_APP_NAME: "Blorp"'') (getCompose (App_config spaced_store)) \<and>
   sublist (lit ''REACT_APP_DEFAULT_INSTANCE: "https://a.com,https://b.com"'')
     (getCompose (App_config spaced_store)) \<and>
   sublist (lit ''value: "Blorp"'') (getKube (App_config spaced_store)) \<and>
   sublist (lit ''value: "https://a.com,https://b.com"'') (getKube (App_config spaced_store)) \<and>
   demoParams spaced_store =
     lit ''REACT_APP_NAME=+Blorp+&REACT_APP_DEFAULT_INSTANCE=https%3A%2F%2Fa.com%2C+https%3A%2F%2Fb.com'' @
     lit ''&REACT_APP_LOCK_TO_DEFAULT_INSTANCE=0&REACT_APP_INSTANCE_SELECTION_MODE=default_first'' \<and>
   demoParams spaced_store \<noteq> demoParams trimmed_store \<and>
   urlencode (name spaced_store) \<noteq> urlencode (trim (name spaced_store)) \<and>
   urlencode (defaultInstance spaced_store) \<noteq>
     urlencode (instances (defaultInstance spaced_store))\<close>
proof -
  have trimmed: "trim (name spaced_store) = name trimmed_store"
    "instances (defaultInstance spaced_store) = defaultInstance trimmed_store"
    by (simp_all add: spaced_values) (simp_all add: trimmed_store_def)
  have differ: "demoParams spaced_store \<noteq> demoParams trimmed_store"
    "urlencode (name spaced_store) \<noteq> urlencode (trim (name spaced_store))"
    "urlencode (defaultInstance spaced_store) \<noteq>
       urlencode (instances (defaultInstance spaced_store))"
    by (simp_all add: spaced_link spaced_values)
      (simp_all add: spaced_store_def params_eval lit_def)
  have entries:
    \<open>sublist (lit ''REACT_APP_NAME="Blorp"'') (getDockerCommand (App_config spaced_store))\<close>
    \<open>sublist (lit ''REACT_APP_DEFAULT_INSTANCE="https://a.com,https://b.com"'')
       (getDockerCommand (App_config spaced_store))\<close>
    \<open>sublist (lit ''REACT_APP_NAME="Blorp"'') (getDockerfile (App_config spaced_store))\<close>
    \<open>sublist (lit ''REACT_APP_DEFAULT_INSTANCE="https://a.com,https://b.com"'')
       (getDockerfile (App_config spaced_store))\<close>
    \<open>sublist (lit ''REACT_APP_NAME: "Blorp"'') (getCompose (App_config spaced_store))\<close>
    \<open>sublist (lit ''REACT_APP_DEFAULT_INSTANCE: "https://a.com,https://b.com"'')
       (getCompose (App_config spaced_store))\<close>
    \<open>sublist (lit ''value: "Blorp"'') (getKube (App_config spaced_store))\<close>
    \<open>sublist (lit ''value: "https://a.com,https://b.com"'') (getKube (App_config spaced_store))\<close>
    using spaced_entries by (simp_all add: lit_def)
  from demoParams_eq [of st] trimmed spaced_renderers entries spaced_link(1) differ
  show ?thesis by (intro conjI)
qed

section \<open>The manifest of the second scenario\<close>

lemma split_on_join_with:
  "ls \<noteq> [] \<Longrightarrow> list_all (\<lambda>l. c \<notin> set l) ls \<Longrightarrow> split_on c (join_with c ls) = ls"
proof (induction c ls rule: join_with.induct)
  case (3 sep x y ys)
  then show ?case by (simp add: split_on_append_sep split_on_no_sep)
qed (simp_all add: split_on_no_sep)

lemma strip_indentation_lines:
  assumes "ls \<noteq> []" "list_all (\<lambda>l. LF \<notin> set l) ls" "mindent_loop None ls = Some m"
  shows "strip_indentation (join_with LF ls) = join_with LF (map (slice_line m) ls)"
  using assms by (simp add: strip_indentation_def split_on_join_with)

lemma trimStart_join_with:
  "trimStart (join_with LF ls) =
     join_with LF (case dropWhile (list_all is_white_space) ls of
                     [] \<Rightarrow> [] | l # r \<Rightarrow> trimStart l # r)"
proof (induction LF ls rule: join_with.induct)
  case 1 then show ?case by (simp add: trimStart_def)
next
  case (2 x)
  then show ?case
    by (auto simp: trimStart_def list_all_iff dropWhile_eq_Nil_conv)
next
  case (3 x y ys)
  show ?case
  proof (cases "list_all is_white_space x")
    case True
    then have "dropWhile is_white_space (x @ LF # join_with LF (y # ys)) =
        dropWhile is_white_space (join_with LF (y # ys))"
      by (simp add: dropWhile_append2 list_all_iff is_white_space_def LF_def)
    with True 3 show ?thesis by (simp add: trimStart_def)
  next
    case False
    then have "dropWhile is_white_space (x @ LF # join_with LF (y # ys)) =
        dropWhile is_white_space x @ LF # join_with LF (y # ys)"
      by (auto simp: dropWhile_append1 list_all_iff)
    with False show ?thesis by (simp add: trimStart_def)
  qed
qed

lemma rev_join_with: "rev (join_with c ls) = join_with c (rev (map rev ls))"
proof (induction c ls rule: join_with.induct)
  case (3 sep x y ys)
  have "join_with sep (rev (map rev (y # ys)) @ [rev x]) =
      join_with sep (rev (map rev (y # ys))) @ sep # join_with sep [rev x]"
    by (rule join_with_append) simp_all
  with 3 show ?case by simp
qed simp_all

lemma trimEnd_join_with:
  "trimEnd (join_with LF ls) =
     join_with LF (rev (case dropWhile (list_all is_white_space) (rev ls) of
                          [] \<Rightarrow> [] | l # r \<Rightarrow> trimEnd l # r))"
proof -
  define D where "D = dropWhile (list_all is_white_space) (rev ls)"
  have blank: "list_all is_white_space \<circ> rev = list_all is_white_space"
    by (rule ext) (simp add: list_all_iff)
  have lines: "dropWhile (list_all is_white_space) (rev (map rev ls)) = map rev D"
    unfolding D_def by (simp only: rev_map dropWhile_map blank)
  have "trimEnd (join_with LF ls) = rev (trimStart (join_with LF (rev (map rev ls))))"
    by (simp add: trimEnd_def trimStart_def rev_join_with)
  also have "\<dots> = rev (join_with LF
      (case map rev D of [] \<Rightarrow> [] | l # r \<Rightarrow> trimStart l # r))"
    by (simp only: trimStart_join_with lines)
  also have "\<dots> = join_with LF (rev (case D of [] \<Rightarrow> [] | l # r \<Rightarrow> trimEnd l # r))"
    by (cases D) (simp_all add: rev_join_with trimEnd_def trimStart_def rev_map)
  finally show ?thesis unfolding D_def .
qed

lemma replace_escaped_lines:
  assumes "list_all (list_all (\<lambda>c. c \<noteq> 92)) ls"
  shows "replace_escaped x y (join_with LF ls) = join_with LF ls"
proof (rule replace_escaped_id)
  from assms have "92 \<notin> \<Union> (set ` set ls)" by (auto simp: list_all_iff)
  with set_join_with [of LF ls] show "92 \<notin> set (join_with LF ls)" by (auto simp: LF_def)
qed


lemma dedent_lines:
  assumes "interpolate raw vals = join_with LF pre"
    and "pre \<noteq> []" "list_all (\<lambda>l. LF \<notin> set l) pre"
    and "mindent_loop None pre = Some m"
    and "trim (join_with LF (map (slice_line m) pre)) = join_with LF out"
    and "list_all (list_all (\<lambda>c. c \<noteq> 92)) out"
  shows "dedent raw vals = join_with LF out"
  unfolding dedent_def assms(1) strip_indentation_lines [OF assms(2,3,4)] assms(5)
  using assms(6) by (rule replace_escaped_lines)

lemma acme_values:
  "trim (name acme_store) = lit ''Acme''"
  "instances (defaultInstance acme_store) = lit ''https://a.com,https://b.com''"
  "number_string (lockVal (lockToDefaultInstance acme_store)) = lit ''1''"
  \<open>getKube_maybeMode (App_config acme_store) =
     lit ''- name: REACT_APP_INSTANCE_SELECTION_MODE'' @ LF # lit ''  value: "default_random"''\<close>
  by (simp_all add: acme_store_def instances_def trim_def trimStart_def trimEnd_def
      is_white_space_def comma_def lit_def number_string_lockVal getKube_maybeMode_eq
      App_config_simps)

lemma acme_single_values:
  "trim (name acme_single_store) = lit ''Acme''"
  "instances (defaultInstance acme_single_store) = lit ''https://a.com''"
  "number_string (lockVal (lockToDefaultInstance acme_single_store)) = lit ''1''"
  "getKube_maybeMode (App_config acme_single_store) = []"
  by (simp_all add: acme_single_store_def instances_def trim_def trimStart_def trimEnd_def
      is_white_space_def comma_def lit_def number_string_lockVal getKube_maybeMode_eq
      App_config_simps)

lemma acme_template:
  "interpolate [getKube_raw0, getKube_raw1, getKube_raw2, getKube_raw3, getKube_raw4]
     [trim (name acme_store), instances (defaultInstance acme_store),
      number_string (lockVal (lockToDefaultInstance acme_store)),
      getKube_maybeMode (App_config acme_store)] = join_with LF acme_template_lines"
  unfolding getKube_interpolate acme_values
  by (simp add: getKube_raws acme_template_lines_def lit_def)

lemma acme_single_template:
  "interpolate [getKube_raw0, getKube_raw1, getKube_raw2, getKube_raw3, getKube_raw4]
     [trim (name acme_single_store), instances (defaultInstance acme_single_store),
      number_string (lockVal (lockToDefaultInstance acme_single_store)),
      getKube_maybeMode (App_config acme_single_store)] =
   join_with LF acme_single_template_lines"
  unfolding getKube_interpolate acme_single_values
  by (simp add: getKube_raws acme_single_template_lines_def lit_def)

lemma acme_template_facts:
  "acme_template_lines \<noteq> []"
  "list_all (\<lambda>l. LF \<notin> set l) acme_template_lines"
  "mindent_loop None acme_template_lines = Some 2"
  by (simp_all add: acme_template_lines_def LF_def line_indent_def is_white_space_def lit_def)

lemma acme_single_template_facts:
  "acme_single_template_lines \<noteq> []"
  "list_all (\<lambda>l. LF \<notin> set l) acme_single_template_lines"
  "mindent_loop None acme_single_template_lines = Some 4"
  by (simp_all add: acme_single_template_lines_def LF_def line_indent_def is_white_space_def
      lit_def)

lemma acme_stripped:
  "trim (join_with LF (map (slice_line 2) acme_template_lines)) =
     join_with LF acme_manifest_lines"
  unfolding trim_def trimStart_join_with trimEnd_join_with
  by (simp add: acme_template_lines_def acme_manifest_lines_def slice_line_def trimStart_def
      trimEnd_def is_white_space_def lit_def del: join_with.simps)

lemma acme_single_stripped:
  "trim (join_with LF (map (slice_line 4) acme_single_template_lines)) =
     join_with LF acme_single_manifest_lines"
  unfolding trim_def trimStart_join_with trimEnd_join_with
  by (simp add: acme_single_template_lines_def acme_single_manifest_lines_def slice_line_def
      trimStart_def trimEnd_def is_white_space_def lit_def del: join_with.simps)

lemma acme_manifest_facts:
  "list_all (list_all (\<lambda>c. c \<noteq> 92)) acme_manifest_lines"
  "acme_manifest_lines \<noteq> []"
  "list_all (\<lambda>l. LF \<notin> set l) acme_manifest_lines"
  by (simp_all add: acme_manifest_lines_def LF_def lit_def)

lemma acme_single_manifest_facts:
  "list_all (list_all (\<lambda>c. c \<noteq> 92)) acme_single_manifest_lines"
  "acme_single_manifest_lines \<noteq> []"
  "list_all (\<lambda>l. LF \<notin> set l) acme_single_manifest_lines"
  by (simp_all add: acme_single_manifest_lines_def LF_def lit_def)

lemma acme_trimmed:
  "trim (join_with LF acme_manifest_lines) = join_with LF acme_manifest_lines"
  unfolding trim_def trimStart_join_with trimEnd_join_with
  by (simp add: acme_manifest_lines_def trimStart_def trimEnd_def is_white_space_def lit_def
      del: join_with.simps)

lemma acme_single_trimmed:
  "trim (join_with LF acme_single_manifest_lines) = join_with LF acme_single_manifest_lines"
  unfolding trim_def trimStart_join_with trimEnd_join_with
  by (simp add: acme_single_manifest_lines_def trimStart_def trimEnd_def is_white_space_def
      lit_def del: join_with.simps)

lemma getKube_acme_single:
  "split_on LF (getKube (App_config acme_single_store)) = acme_single_manifest_lines"
proof -
  have "getKube (App_config acme_single_store) = join_with LF acme_single_manifest_lines"
    unfolding getKube_def App_config_simps(1,2,3)
    by (simp only: acme_single_trimmed
        dedent_lines [OF acme_single_template acme_single_template_facts acme_single_stripped
          acme_single_manifest_facts(1)])
  then show ?thesis
    by (simp only: split_on_join_with [OF acme_single_manifest_facts(2,3)])
qed

text \<open>
  With one endpoint the manifest has the delimiter on a line of its own, between the
  two documents.
\<close>

lemma getKube_acme_single_delimiter:
  "lit ''---'' \<in> set (split_on LF (getKube (App_config acme_single_store)))"
  unfolding getKube_acme_single by (simp add: acme_single_manifest_lines_def lit_def)

text \<open>
  Claim C8, at its settings. The tag strips the indentation that all the lines of the
  interpolated text share. The selection-mode entry comes from a tag of its own, so its
  second line arrives with two spaces, and two spaces is what every line loses instead
  of the four of the template: the manifest is the text below, where the delimiter is
  not a line (it stands behind two spaces), and the value of the selection mode is at
  the margin, outside the list of environment entries.
\<close>

theorem getKube_acme_manifest:
  \<open>split_on LF (getKube (App_config acme_store)) = acme_manifest_lines \<and>
   lit ''---'' \<notin> set (split_on LF (getKube (App_config acme_store))) \<and>
   lit ''  ---'' \<in> set (split_on LF (getKube (App_config acme_store))) \<and>
   take 2 (split_on LF (getKube (App_config acme_store))) =
     [lit ''apiVersion: apps/v1'', lit ''  kind: Deployment''] \<and>
   lit ''value: "default_random"'' \<in> set (split_on LF (getKube (App_config acme_store))) \<and>
   lit ''    type: NodePort'' \<in> set (split_on LF (getKube (App_config acme_store))) \<and>
   lit ''        nodePort: 30080'' \<in> set (split_on LF (getKube (App_config acme_store)))\<close>
proof -
  have "getKube (App_config acme_store) = join_with LF acme_manifest_lines"
    unfolding getKube_def App_config_simps(1,2,3)
    by (simp only: acme_trimmed
        dedent_lines [OF acme_template acme_template_facts acme_stripped acme_manifest_facts(1)])
  then have lines: "split_on LF (getKube (App_config acme_store)) = acme_manifest_lines"
    by (simp only: split_on_join_with [OF acme_manifest_facts(2,3)])
  show ?thesis
    unfolding lines by (simp add: acme_manifest_lines_def lit_def)
qed

end
